theory Spec2Isabelle
  imports Complex_Main
begin

section \<open>Tensors and the TensorFlow operations used by \<open>modules.py\<close>\<close>

text \<open>
  A dense tensor is its shape together with the value stored at every index. An index is
  the list of coordinates, one per axis. Values of the element function outside the shape
  are never looked at by the statements below: they all speak about valid indices.
  The element type is a parameter: masks are integer tensors, everything else is real.
  Real numbers stand for the ideal values of the floating-point numbers of the source.
\<close>

record 'a tensor =
  shape :: "nat list"
  elem :: "nat list \<Rightarrow> 'a"

definition valid_index :: "nat list \<Rightarrow> nat list \<Rightarrow> bool" where
  "valid_index s idx = list_all2 (\<lambda>i d. i < d) idx s"

definition tf_scalar :: "'a \<Rightarrow> 'a tensor" where
  "tf_scalar c = \<lparr>shape = [], elem = (\<lambda>idx. c)\<rparr>"

text \<open>
  Broadcasting of elementwise operations: shapes are aligned at their last axis, a missing
  axis and an axis of size 1 are stretched. \<open>bcast_index s idx\<close> is the index into an
  operand of shape \<open>s\<close> that the result index \<open>idx\<close> reads.
\<close>

definition pad_shape :: "nat \<Rightarrow> nat list \<Rightarrow> nat list" where
  "pad_shape n s = replicate (n - length s) 1 @ s"

definition bcast_shape :: "nat list \<Rightarrow> nat list \<Rightarrow> nat list" where
  "bcast_shape s t =
     (let n = max (length s) (length t)
      in map2 (\<lambda>a b. if a = 1 then b else a) (pad_shape n s) (pad_shape n t))"

definition bcast_index :: "nat list \<Rightarrow> nat list \<Rightarrow> nat list" where
  "bcast_index s idx =
     map2 (\<lambda>d i. if d = 1 then 0 else i) s (drop (length idx - length s) idx)"

definition tf_binop :: "('a \<Rightarrow> 'b \<Rightarrow> 'c) \<Rightarrow> 'a tensor \<Rightarrow> 'b tensor \<Rightarrow> 'c tensor" where
  "tf_binop f a b =
     \<lparr>shape = bcast_shape (shape a) (shape b),
      elem = (\<lambda>idx. f (elem a (bcast_index (shape a) idx)) (elem b (bcast_index (shape b) idx)))\<rparr>"

definition tf_add :: "('a::plus) tensor \<Rightarrow> 'a tensor \<Rightarrow> 'a tensor" where
  "tf_add = tf_binop (+)"

definition tf_sub :: "('a::minus) tensor \<Rightarrow> 'a tensor \<Rightarrow> 'a tensor" where
  "tf_sub = tf_binop (-)"

definition tf_mul :: "('a::times) tensor \<Rightarrow> 'a tensor \<Rightarrow> 'a tensor" where
  "tf_mul = tf_binop (*)"

definition tf_cast_float :: "int tensor \<Rightarrow> real tensor" where
  "tf_cast_float m = \<lparr>shape = shape m, elem = (\<lambda>idx. real_of_int (elem m idx))\<rparr>"

text \<open>
  An axis argument may be negative and then counts from the last axis.
\<close>

definition norm_axis :: "nat \<Rightarrow> int \<Rightarrow> nat" where
  "norm_axis r axis = (if axis < 0 then nat (axis + int r) else nat axis)"

text \<open>
  \<open>tf.nn.softmax(x, dim)\<close>: every entry is its exponential divided by the sum of the
  exponentials of the entries that differ from it in coordinate \<open>dim\<close> (written \<open>axis\<close> below) only.
\<close>

definition tf_softmax :: "real tensor \<Rightarrow> int \<Rightarrow> real tensor" where
  "tf_softmax x axis =
     (let ax = norm_axis (length (shape x)) axis
      in \<lparr>shape = shape x,
          elem = (\<lambda>idx. exp (elem x idx) /
                  sum_list (map (\<lambda>k. exp (elem x (idx[ax := k]))) [0..<shape x ! ax]))\<rparr>)"

section \<open>\<open>masked_softmax\<close>\<close>

text \<open>
  \<^verbatim>\<open>
  def masked_softmax(logits, mask, dim):
      exp_mask = (1 - tf.cast(mask, 'float')) * (-1e30)
      masked_logits = tf.add(logits, exp_mask)
      prob_dist = tf.nn.softmax(masked_logits, dim)
      return masked_logits, prob_dist
  \<close>
\<close>

definition masked_softmax :: "real tensor \<Rightarrow> int tensor \<Rightarrow> int \<Rightarrow> real tensor \<times> real tensor" where
  "masked_softmax logits msk axis =
     (let exp_mask = tf_mul (tf_sub (tf_scalar 1) (tf_cast_float msk)) (tf_scalar (- (10 ^ 30)));
          masked_logits = tf_add logits exp_mask;
          prob_dist = tf_softmax masked_logits axis
      in (masked_logits, prob_dist))"

text \<open>The sum of the entries of \<open>x\<close> along axis \<open>ax\<close> through the index \<open>idx\<close>.\<close>

definition row_sum :: "real tensor \<Rightarrow> nat \<Rightarrow> nat list \<Rightarrow> real" where
  "row_sum x ax idx = sum_list (map (\<lambda>k. elem x (idx[ax := k])) [0..<shape x ! ax])"

section \<open>The float32 rounding of the masking addition\<close>

text \<open>
  The tensors of the source hold float32 numbers. Elsewhere in this theory the real numbers
  stand for them; the statement about a row without a valid entry depends on the rounding of
  \<open>tf.add(logits, exp_mask)\<close>, so that rounding is written out here. \<open>float32\<close> rounds a
  real number to the nearest number with a 24-bit significand, ties to even; overflow and
  subnormal numbers are left out, none of the sums below comes near them. In
  \<open>masked_softmax_float32\<close> the constant \<open>-1e30\<close> is the float32 number
  \<open>- float32 (10 ^ 30)\<close> and the addition rounds; the cast, the subtraction from 1 and the
  product with the constant are exact on a mask of zeros and ones; the softmax stays over
  the reals.
\<close>

definition round_even :: "real \<Rightarrow> int" where
  "round_even y =
     (let f = \<lfloor>y\<rfloor>; d = y - of_int f
      in if d < 1 / 2 then f else if 1 / 2 < d then f + 1 else if even f then f else f + 1)"

definition float32 :: "real \<Rightarrow> real" where
  "float32 x =
     (if x = 0 then 0
      else (let e = \<lfloor>log 2 \<bar>x\<bar>\<rfloor> - 23
            in of_int (round_even (x * 2 powr (- of_int e))) * 2 powr (of_int e)))"

definition tf_add_float32 :: "real tensor \<Rightarrow> real tensor \<Rightarrow> real tensor" where
  "tf_add_float32 = tf_binop (\<lambda>a b. float32 (a + b))"

definition masked_softmax_float32 ::
  "real tensor \<Rightarrow> int tensor \<Rightarrow> int \<Rightarrow> real tensor \<times> real tensor" where
  "masked_softmax_float32 logits msk axis =
     (let exp_mask = tf_mul (tf_sub (tf_scalar 1) (tf_cast_float msk)) (tf_scalar (- float32 (10 ^ 30)));
          masked_logits = tf_add_float32 logits exp_mask;
          prob_dist = tf_softmax masked_logits axis
      in (masked_logits, prob_dist))"

section \<open>More TensorFlow operations\<close>

text \<open>
  The operations below follow the documented meaning of the TensorFlow functions of the
  same name, for operands of the shapes the modules pass. TensorFlow rejects operands
  whose shapes do not fit; the statements about the modules assume the documented shapes.
\<close>

definition insert_at :: "nat \<Rightarrow> 'a \<Rightarrow> 'a list \<Rightarrow> 'a list" where
  "insert_at n k xs = take n xs @ k # drop n xs"

definition remove_at :: "nat \<Rightarrow> 'a list \<Rightarrow> 'a list" where
  "remove_at n xs = take n xs @ drop (Suc n) xs"

definition tf_reduce_sum :: "('a::comm_monoid_add) tensor \<Rightarrow> int \<Rightarrow> 'a tensor" where
  "tf_reduce_sum x axis =
     (let ax = norm_axis (length (shape x)) axis
      in \<lparr>shape = remove_at ax (shape x),
          elem = (\<lambda>idx. sum_list (map (\<lambda>k. elem x (insert_at ax k idx)) [0..<shape x ! ax]))\<rparr>)"

definition tf_reduce_max :: "real tensor \<Rightarrow> int \<Rightarrow> real tensor" where
  "tf_reduce_max x axis =
     (let ax = norm_axis (length (shape x)) axis
      in \<lparr>shape = remove_at ax (shape x),
          elem = (\<lambda>idx. Max (set (map (\<lambda>k. elem x (insert_at ax k idx)) [0..<shape x ! ax])))\<rparr>)"

text \<open>
  \<open>tf.matmul\<close>: the product of the matrices in the last two axes; the axes before them
  are batch axes.
\<close>

definition tf_matmul :: "('a::semiring_0) tensor \<Rightarrow> 'a tensor \<Rightarrow> 'a tensor" where
  "tf_matmul a b =
     \<lparr>shape = butlast (shape a) @ [shape b ! (length (shape b) - 1)],
      elem = (\<lambda>idx. sum_list (map
                (\<lambda>k. elem a (butlast idx @ [k]) * elem b (take (length idx - 2) idx @ [k, idx ! (length idx - 1)]))
                [0..<shape a ! (length (shape a) - 1)]))\<rparr>"

fun index_of :: "nat list \<Rightarrow> nat \<Rightarrow> nat" where
  "index_of [] d = 0"
| "index_of (p # ps) d = (if p = d then 0 else Suc (index_of ps d))"

text \<open>
  \<open>tf.transpose(x, perm)\<close>: axis \<open>i\<close> of the result is axis \<open>perm[i]\<close> of \<open>x\<close>.
\<close>

definition tf_transpose :: "'a tensor \<Rightarrow> nat list \<Rightarrow> 'a tensor" where
  "tf_transpose x perm =
     \<lparr>shape = map (\<lambda>p. shape x ! p) perm,
      elem = (\<lambda>idx. elem x (map (\<lambda>d. idx ! index_of perm d) [0..<length perm]))\<rparr>"

text \<open>
  \<open>tf.expand_dims(x, axis)\<close> inserts an axis of size 1; a negative \<open>axis\<close> counts from
  the end of the result, so \<open>-1\<close> appends the new axis.
\<close>

definition tf_expand_dims :: "'a tensor \<Rightarrow> int \<Rightarrow> 'a tensor" where
  "tf_expand_dims x axis =
     (let ax = norm_axis (Suc (length (shape x))) axis
      in \<lparr>shape = insert_at ax 1 (shape x), elem = (\<lambda>idx. elem x (remove_at ax idx))\<rparr>)"

text \<open>
  \<open>tf.reshape\<close> keeps the entries in row-major order. \<open>ravel\<close> is the position of an
  index in that order, \<open>unravel\<close> its inverse. One entry of the new shape may be \<open>-1\<close>
  and is then computed from the number of entries.
\<close>

fun ravel :: "nat list \<Rightarrow> nat list \<Rightarrow> nat" where
  "ravel (d # ds) (i # is) = i * prod_list ds + ravel ds is"
| "ravel ds is = 0"

fun unravel :: "nat list \<Rightarrow> nat \<Rightarrow> nat list" where
  "unravel [] n = []"
| "unravel (d # ds) n = (n div prod_list ds) # unravel ds (n mod prod_list ds)"

definition infer_shape :: "nat \<Rightarrow> int list \<Rightarrow> nat list" where
  "infer_shape n s =
     (let known = prod_list (map nat (filter (\<lambda>d. d \<noteq> - 1) s))
      in map (\<lambda>d. if d = - 1 then n div known else nat d) s)"

definition tf_reshape :: "'a tensor \<Rightarrow> int list \<Rightarrow> 'a tensor" where
  "tf_reshape x s =
     (let s' = infer_shape (prod_list (shape x)) s
      in \<lparr>shape = s', elem = (\<lambda>idx. elem x (unravel (shape x) (ravel s' idx)))\<rparr>)"

definition tf_tile :: "'a tensor \<Rightarrow> nat list \<Rightarrow> 'a tensor" where
  "tf_tile x multiples =
     \<lparr>shape = map2 (*) (shape x) multiples,
      elem = (\<lambda>idx. elem x (map2 (\<lambda>i d. i mod d) idx (shape x)))\<rparr>"

text \<open>
  \<open>tf.concat(xs, axis)\<close>: the tensors one after the other along \<open>axis\<close>.
\<close>

fun concat_elem :: "('a::zero) tensor list \<Rightarrow> nat \<Rightarrow> nat list \<Rightarrow> 'a" where
  "concat_elem [] ax idx = 0"
| "concat_elem (x # xs) ax idx =
     (if idx ! ax < shape x ! ax then elem x idx
      else concat_elem xs ax (idx[ax := idx ! ax - shape x ! ax]))"

definition tf_concat :: "('a::zero) tensor list \<Rightarrow> nat \<Rightarrow> 'a tensor" where
  "tf_concat xs ax =
     \<lparr>shape = (case xs of [] \<Rightarrow> [] | x # _ \<Rightarrow> (shape x)[ax := sum_list (map (\<lambda>t. shape t ! ax) xs)]),
      elem = concat_elem xs ax\<rparr>"


definition tf_tanh :: "real tensor \<Rightarrow> real tensor" where
  "tf_tanh x = \<lparr>shape = shape x, elem = (\<lambda>idx. tanh (elem x idx))\<rparr>"

text \<open>
  \<open>tf.nn.dropout(x, keep_prob)\<close> draws a uniform random number \<open>u\<close> in \<open>[0, 1)\<close> for
  every entry and returns \<open>x / keep_prob * floor (keep_prob + u)\<close>. The random numbers are
  an explicit argument here: one run of the graph is one choice of \<open>noise\<close>.
\<close>

definition dropout_value :: "real \<Rightarrow> real \<Rightarrow> real \<Rightarrow> real" where
  "dropout_value x keep_prob u = x / keep_prob * of_int \<lfloor>keep_prob + u\<rfloor>"

definition tf_dropout :: "real tensor \<Rightarrow> real \<Rightarrow> (nat list \<Rightarrow> real) \<Rightarrow> real tensor" where
  "tf_dropout x keep_prob noise =
     \<lparr>shape = shape x, elem = (\<lambda>idx. dropout_value (elem x idx) keep_prob (noise idx))\<rparr>"

definition uniform_noise :: "(nat list \<Rightarrow> real) \<Rightarrow> bool" where
  "uniform_noise noise = (\<forall>idx. 0 \<le> noise idx \<and> noise idx < 1)"

section \<open>The attention modules\<close>

text \<open>
  The constructors of the three modules only store their arguments, so each module is the
  record of its fields. Variables that \<open>tf.get_variable\<close> creates are the learned
  parameters: they are arguments of \<open>build_graph\<close> here, as is the noise of the dropout.
  The \<open>tf.assert_equal\<close> calls of the source build graph nodes that nothing runs; they
  have no counterpart in the functions below.
\<close>

subsection \<open>\<open>BasicAttn\<close>\<close>

record BasicAttn =
  keep_prob :: real
  key_vec_size :: int
  value_vec_size :: int

definition BasicAttn_build_graph ::
  "BasicAttn \<Rightarrow> (nat list \<Rightarrow> real) \<Rightarrow> real tensor \<Rightarrow> int tensor \<Rightarrow> real tensor
   \<Rightarrow> real tensor \<times> real tensor" where
  "BasicAttn_build_graph self noise values values_mask keys =
     (let values_t = tf_transpose values [0, 2, 1];
          attn_logits = tf_matmul keys values_t;
          attn_logits_mask = tf_expand_dims values_mask 1;
          attn_dist = snd (masked_softmax attn_logits attn_logits_mask 2);
          output = tf_matmul attn_dist values;
          output = tf_dropout output (BasicAttn.keep_prob self) noise
      in (attn_dist, output))"

text \<open>The logit of key \<open>i\<close> against value \<open>j\<close>: their dot product, as \<open>tf.matmul(keys, values_t)\<close> computes it.\<close>

definition attn_logit :: "real tensor \<Rightarrow> real tensor \<Rightarrow> nat \<Rightarrow> nat \<Rightarrow> nat \<Rightarrow> real" where
  "attn_logit keys values b i j = (\<Sum>d<shape keys ! 2. elem keys [b, i, d] * elem values [b, j, d])"

subsection \<open>\<open>SelfAttn\<close>\<close>

record SelfAttn =
  keep_prob :: real
  hidden_size :: int
  attention_size :: int

text \<open>Lines 189 to 199 of \<open>modules.py\<close>: the score matrix \<open>E\<close>.\<close>

definition SelfAttn_scores ::
  "SelfAttn \<Rightarrow> real tensor \<Rightarrow> real tensor \<Rightarrow> real tensor \<Rightarrow> real tensor \<Rightarrow> real tensor" where
  "SelfAttn_scores self weights_1 weights_2 v contexts =
     (let B = shape contexts ! 0;
          N = shape contexts ! 1;
          C = attention_size self;
          values_1 = tf_reshape (tf_matmul (tf_reshape contexts [int (B * N), - 1]) weights_1) [- 1, int N, C];
          values_2 = tf_reshape (tf_matmul (tf_reshape contexts [int (B * N), - 1]) weights_2) [- 1, int N, C];
          values_1 = tf_expand_dims values_1 1;
          values_2 = tf_expand_dims values_2 2;
          additive_value = tf_add values_1 values_2;
          additive_value = tf_tanh additive_value;
          E = tf_matmul (tf_reshape additive_value [int (B * N * N), C]) v;
          E = tf_reshape E [- 1, int N, int N]
      in E)"

text \<open>Lines 201 and 202: the pairwise mask.\<close>

definition SelfAttn_mask :: "int tensor \<Rightarrow> int tensor" where
  "SelfAttn_mask contexts_mask =
     (let contexts_mask = tf_expand_dims contexts_mask 2;
          E_mask = tf_mul contexts_mask (tf_transpose contexts_mask [0, 2, 1])
      in E_mask)"

definition SelfAttn_build_graph ::
  "SelfAttn \<Rightarrow> real tensor \<Rightarrow> real tensor \<Rightarrow> real tensor \<Rightarrow> (nat list \<Rightarrow> real)
   \<Rightarrow> real tensor \<Rightarrow> int tensor \<Rightarrow> real tensor \<times> real tensor" where
  "SelfAttn_build_graph self weights_1 weights_2 v noise contexts contexts_mask =
     (let E = SelfAttn_scores self weights_1 weights_2 v contexts;
          E_mask = SelfAttn_mask contexts_mask;
          attn_p = snd (masked_softmax E E_mask 2);
          output = tf_matmul attn_p contexts;
          output = tf_dropout output (SelfAttn.keep_prob self) noise
      in (attn_p, output))"

subsection \<open>\<open>BidirectionAttn\<close>\<close>

record BidirectionAttn =
  keep_prob :: real
  hidden_size :: int

definition build_similarity_matrix ::
  "BidirectionAttn \<Rightarrow> real tensor \<Rightarrow> real tensor \<Rightarrow> real tensor \<Rightarrow> real tensor \<Rightarrow> real tensor
   \<Rightarrow> real tensor" where
  "build_similarity_matrix self w_sim_1 w_sim_2 w_sim_3 questions contexts =
     (let H = BidirectionAttn.hidden_size self;
          BS = shape questions ! 0;
          N = shape contexts ! 1;
          M = shape questions ! 1;
          CW = tf_reshape (tf_mul (tf_reshape contexts [- 1, 2 * H]) (tf_expand_dims w_sim_3 0))
                 [- 1, int N, 2 * H];
          term1 = tf_reshape (tf_matmul (tf_reshape contexts [int (BS * N), 2 * H])
                    (tf_expand_dims w_sim_1 (- 1))) [- 1, int N];
          term2 = tf_reshape (tf_matmul (tf_reshape questions [int (BS * M), 2 * H])
                    (tf_expand_dims w_sim_2 (- 1))) [- 1, int M];
          term3 = tf_matmul CW (tf_transpose questions [0, 2, 1]);
          S = tf_add (tf_add (tf_reshape term1 [- 1, int N, 1]) term3) (tf_reshape term2 [- 1, 1, int M])
      in S)"

text \<open>Lines 286 to 291: the mask of the similarity matrix.\<close>

definition similarity_mask :: "int tensor \<Rightarrow> int tensor \<Rightarrow> int tensor" where
  "similarity_mask questions_mask contexts_mask =
     (let questions_mask = tf_expand_dims questions_mask (- 1);
          contexts_mask = tf_expand_dims contexts_mask (- 1);
          S_mask = tf_matmul contexts_mask (tf_transpose questions_mask [0, 2, 1])
      in S_mask)"

definition BidirectionAttn_build_graph ::
  "BidirectionAttn \<Rightarrow> real tensor \<Rightarrow> real tensor \<Rightarrow> real tensor \<Rightarrow> (nat list \<Rightarrow> real)
   \<Rightarrow> real tensor \<Rightarrow> int tensor \<Rightarrow> real tensor \<Rightarrow> int tensor
   \<Rightarrow> real tensor \<times> real tensor \<times> real tensor" where
  "BidirectionAttn_build_graph self w_sim_1 w_sim_2 w_sim_3 noise
       questions questions_mask contexts contexts_mask =
     (let N = shape contexts ! 1;
          S = build_similarity_matrix self w_sim_1 w_sim_2 w_sim_3 questions contexts;
          S_mask = similarity_mask questions_mask contexts_mask;
          (S, alpha) = masked_softmax S S_mask 2;
          c2q_output = tf_matmul alpha questions;
          m = tf_reduce_max S 2;
          beta = tf_expand_dims (tf_softmax m (- 1)) (- 1);
          beta = tf_transpose beta [0, 2, 1];
          q2c_output = tf_matmul beta contexts;
          q2c_output = tf_tile q2c_output [1, N, 1];
          output = tf_concat [c2q_output, tf_mul c2q_output contexts, tf_mul q2c_output contexts] 2;
          output = tf_dropout output (BidirectionAttn.keep_prob self) noise
      in (alpha, tf_reshape beta [- 1, int N], output))"


section \<open>\<open>RNNEncoder\<close>\<close>

datatype py_error = IndexError | ValueError

text \<open>
  The cells the constructor creates: \<open>rnn_cell.GRUCell(hidden_size)\<close> or
  \<open>tf.contrib.rnn.BasicLSTMCell(hidden_size)\<close>, each inside
  \<open>DropoutWrapper(cell, input_keep_prob=keep_prob)\<close>.
\<close>

datatype rnn_cell = GRUCell int | BasicLSTMCell int

datatype wrapped_cell = DropoutWrapper rnn_cell real

record RNNEncoder =
  hidden_size :: int
  keep_prob :: real
  num_layers :: int
  mode :: string
  name :: "string option"
  rnn_cells_fw :: "wrapped_cell list"
  rnn_cells_bw :: "wrapped_cell list"

text \<open>
  The body of \<open>for _ in range(num_layers)\<close> in \<open>__init__\<close>: it appends one cell to each
  list when the mode is \<open>'GRU'\<close> or \<open>'LSTM'\<close>; there is no \<open>else\<close> branch.
\<close>

definition append_cells :: "RNNEncoder \<Rightarrow> RNNEncoder" where
  "append_cells self =
     (if mode self = ''GRU'' then
        self\<lparr>rnn_cells_fw := rnn_cells_fw self @
                 [DropoutWrapper (GRUCell (RNNEncoder.hidden_size self)) (RNNEncoder.keep_prob self)],
             rnn_cells_bw := rnn_cells_bw self @
                 [DropoutWrapper (GRUCell (RNNEncoder.hidden_size self)) (RNNEncoder.keep_prob self)]\<rparr>
      else if mode self = ''LSTM'' then
        self\<lparr>rnn_cells_fw := rnn_cells_fw self @
                 [DropoutWrapper (BasicLSTMCell (RNNEncoder.hidden_size self)) (RNNEncoder.keep_prob self)],
             rnn_cells_bw := rnn_cells_bw self @
                 [DropoutWrapper (BasicLSTMCell (RNNEncoder.hidden_size self)) (RNNEncoder.keep_prob self)]\<rparr>
      else self)"

text \<open>
  \<open>RNNEncoder.__init__\<close>. \<open>range(num_layers)\<close> is empty for a number that is not
  positive. The constructor has no \<open>raise\<close>; its result type still has room for one.
\<close>

definition RNNEncoder_init ::
  "int \<Rightarrow> real \<Rightarrow> int \<Rightarrow> string \<Rightarrow> string option \<Rightarrow> py_error + RNNEncoder" where
  "RNNEncoder_init hidden_size' keep_prob' num_layers' mode' name' =
     Inr ((append_cells ^^ nat num_layers')
       \<lparr>hidden_size = hidden_size', keep_prob = keep_prob', num_layers = num_layers',
        mode = mode', name = name', rnn_cells_fw = [], rnn_cells_bw = []\<rparr>)"

subsection \<open>The recurrent network of TensorFlow\<close>

text \<open>
  A cell maps an input vector and a state to an output vector and the next state. Which
  function a cell computes depends on its learned weights, which TensorFlow creates per
  direction and layer: \<open>cell_fn\<close> below is that function, a parameter of the model.
\<close>

datatype direction = Fw | Bw

type_synonym cell_fn = "real list \<Rightarrow> real list \<Rightarrow> real list \<times> real list"

fun num_units :: "rnn_cell \<Rightarrow> nat" where
  "num_units (GRUCell h) = nat h"
| "num_units (BasicLSTMCell h) = nat h"

fun zero_state :: "rnn_cell \<Rightarrow> real list" where
  "zero_state (GRUCell h) = replicate (nat h) 0"
| "zero_state (BasicLSTMCell h) = replicate (2 * nat h) 0"

text \<open>
  A call of a \<open>DropoutWrapper\<close> cell applies dropout with \<open>input_keep_prob\<close> to the input
  and then calls the cell inside.
\<close>

fun wrapped_cell_call :: "wrapped_cell \<Rightarrow> (rnn_cell \<Rightarrow> cell_fn) \<Rightarrow> (nat \<Rightarrow> real) \<Rightarrow> cell_fn" where
  "wrapped_cell_call (DropoutWrapper c input_keep_prob) run u x st =
     run c (map (\<lambda>k. dropout_value (x ! k) input_keep_prob (u k)) [0..<length x]) st"

fun wrapped_units :: "wrapped_cell \<Rightarrow> nat" where
  "wrapped_units (DropoutWrapper c input_keep_prob) = num_units c"

fun wrapped_zero_state :: "wrapped_cell \<Rightarrow> real list" where
  "wrapped_zero_state (DropoutWrapper c input_keep_prob) = zero_state c"

text \<open>
  \<open>tf.nn.dynamic_rnn\<close> on one sequence of the batch, with its \<open>sequence_length\<close>: past
  the length the output is zero and the state is copied through.
\<close>

fun rnn_steps :: "(nat \<Rightarrow> cell_fn) \<Rightarrow> nat \<Rightarrow> nat \<Rightarrow> nat \<Rightarrow> real list list \<Rightarrow> real list \<Rightarrow> real list list" where
  "rnn_steps f units len t [] st = []"
| "rnn_steps f units len t (x # xs) st =
     (if t < len then
        (case f t x st of (out, st') \<Rightarrow> out # rnn_steps f units len (Suc t) xs st')
      else replicate units 0 # rnn_steps f units len (Suc t) xs st)"

definition sequence_of :: "real tensor \<Rightarrow> nat \<Rightarrow> real list list" where
  "sequence_of x b =
     map (\<lambda>t. map (\<lambda>k. elem x [b, t, k]) [0..<shape x ! 2]) [0..<shape x ! 1]"

definition dynamic_rnn ::
  "wrapped_cell \<Rightarrow> (rnn_cell \<Rightarrow> cell_fn) \<Rightarrow> (nat \<Rightarrow> nat list \<Rightarrow> real) \<Rightarrow> real tensor \<Rightarrow> int tensor
   \<Rightarrow> real tensor" where
  "dynamic_rnn cell run noise inputs sequence_length =
     \<lparr>shape = [shape inputs ! 0, shape inputs ! 1, wrapped_units cell],
      elem = (\<lambda>idx.
        let b = idx ! 0;
            outs = rnn_steps (\<lambda>t. wrapped_cell_call cell run (\<lambda>k. noise t [b, k]))
                     (wrapped_units cell) (nat (elem sequence_length [b])) 0
                     (sequence_of inputs b) (wrapped_zero_state cell)
        in outs ! (idx ! 1) ! (idx ! 2))\<rparr>"

definition tf_reverse_sequence :: "real tensor \<Rightarrow> int tensor \<Rightarrow> real tensor" where
  "tf_reverse_sequence x seq_lengths =
     \<lparr>shape = shape x,
      elem = (\<lambda>idx.
        let len = nat (elem seq_lengths [idx ! 0])
        in if idx ! 1 < len then elem x (idx[1 := len - 1 - idx ! 1]) else elem x idx)\<rparr>"

text \<open>
  \<open>tf.nn.bidirectional_dynamic_rnn\<close>: the forward network on the inputs, the backward
  network on the inputs reversed within their lengths, its outputs reversed back.
\<close>

definition bidirectional_dynamic_rnn ::
  "wrapped_cell \<Rightarrow> wrapped_cell \<Rightarrow> (direction \<Rightarrow> rnn_cell \<Rightarrow> cell_fn)
   \<Rightarrow> (direction \<Rightarrow> nat \<Rightarrow> nat list \<Rightarrow> real) \<Rightarrow> real tensor \<Rightarrow> int tensor
   \<Rightarrow> real tensor \<times> real tensor" where
  "bidirectional_dynamic_rnn cell_fw cell_bw run noise inputs sequence_length =
     (dynamic_rnn cell_fw (run Fw) (noise Fw) inputs sequence_length,
      tf_reverse_sequence
        (dynamic_rnn cell_bw (run Bw) (noise Bw)
           (tf_reverse_sequence inputs sequence_length) sequence_length)
        sequence_length)"

text \<open>
  \<open>tf.contrib.rnn.stack_bidirectional_dynamic_rnn\<close>: it rejects empty cell lists and
  lists of different lengths with a \<open>ValueError\<close>, and otherwise feeds the concatenated
  outputs of each layer to the next.
\<close>

fun stack_layers ::
  "nat \<Rightarrow> (wrapped_cell \<times> wrapped_cell) list \<Rightarrow> (nat \<Rightarrow> direction \<Rightarrow> rnn_cell \<Rightarrow> cell_fn)
   \<Rightarrow> (nat \<Rightarrow> direction \<Rightarrow> nat \<Rightarrow> nat list \<Rightarrow> real) \<Rightarrow> int tensor \<Rightarrow> real tensor \<Rightarrow> real tensor" where
  "stack_layers i [] run noise sequence_length prev_layer = prev_layer"
| "stack_layers i ((cell_fw, cell_bw) # cells) run noise sequence_length prev_layer =
     (case bidirectional_dynamic_rnn cell_fw cell_bw (run i) (noise i) prev_layer sequence_length of
        (fw_out, bw_out) \<Rightarrow>
          stack_layers (Suc i) cells run noise sequence_length (tf_concat [fw_out, bw_out] 2))"

definition stack_bidirectional_dynamic_rnn ::
  "wrapped_cell list \<Rightarrow> wrapped_cell list \<Rightarrow> (nat \<Rightarrow> direction \<Rightarrow> rnn_cell \<Rightarrow> cell_fn)
   \<Rightarrow> (nat \<Rightarrow> direction \<Rightarrow> nat \<Rightarrow> nat list \<Rightarrow> real) \<Rightarrow> real tensor \<Rightarrow> int tensor
   \<Rightarrow> py_error + real tensor" where
  "stack_bidirectional_dynamic_rnn cells_fw cells_bw run noise inputs sequence_length =
     (if cells_fw = [] then Inl ValueError
      else if cells_bw = [] then Inl ValueError
      else if length cells_fw \<noteq> length cells_bw then Inl ValueError
      else Inr (stack_layers 0 (zip cells_fw cells_bw) run noise sequence_length inputs))"

text \<open>
  \<open>RNNEncoder.build_graph\<close>. \<open>run\<close> stands for the learned weights of the cells,
  \<open>cell_noise\<close> and \<open>out_noise\<close> for the random numbers of the dropout inside the cells
  and of the final dropout. \<open>self.rnn_cells_fw[0]\<close> and \<open>self.rnn_cells_bw[0]\<close> are
  evaluated, in this order, before \<open>bidirectional_dynamic_rnn\<close> is called, and raise
  \<open>IndexError\<close> on an empty list. The \<open>tf.assert_equal\<close> of the source builds a graph node
  that nothing runs; it has no counterpart here.
\<close>

definition RNNEncoder_build_graph ::
  "RNNEncoder \<Rightarrow> (nat \<Rightarrow> direction \<Rightarrow> rnn_cell \<Rightarrow> cell_fn)
   \<Rightarrow> (nat \<Rightarrow> direction \<Rightarrow> nat \<Rightarrow> nat list \<Rightarrow> real) \<Rightarrow> (nat list \<Rightarrow> real)
   \<Rightarrow> real tensor \<Rightarrow> int tensor \<Rightarrow> py_error + real tensor" where
  "RNNEncoder_build_graph self run cell_noise out_noise inputs masks =
     (let input_lens = tf_reduce_sum masks 1 in
      if num_layers self = 1 then
        (case rnn_cells_fw self of
           [] \<Rightarrow> Inl IndexError
         | cell_fw # _ \<Rightarrow>
            (case rnn_cells_bw self of
               [] \<Rightarrow> Inl IndexError
             | cell_bw # _ \<Rightarrow>
                (case bidirectional_dynamic_rnn cell_fw cell_bw (run 0) (cell_noise 0) inputs input_lens of
                   (fw_out, bw_out) \<Rightarrow>
                     Inr (tf_dropout (tf_concat [fw_out, bw_out] 2) (RNNEncoder.keep_prob self) out_noise))))
      else
        (case stack_bidirectional_dynamic_rnn (rnn_cells_fw self) (rnn_cells_bw self)
                run cell_noise inputs input_lens of
           Inl e \<Rightarrow> Inl e
         | Inr out \<Rightarrow> Inr (tf_dropout out (RNNEncoder.keep_prob self) out_noise)))"

text \<open>
  The keep probability a wrapped cell was built with, and the random numbers of the dropout
  inside the cells being uniform draws from \<open>[0, 1)\<close>.
\<close>

fun cell_keep_prob :: "wrapped_cell \<Rightarrow> real" where
  "cell_keep_prob (DropoutWrapper c input_keep_prob) = input_keep_prob"

definition uniform_cell_noise :: "(nat \<Rightarrow> direction \<Rightarrow> nat \<Rightarrow> nat list \<Rightarrow> real) \<Rightarrow> bool" where
  "uniform_cell_noise noise = (\<forall>i d t idx. 0 \<le> noise i d t idx \<and> noise i d t idx < 1)"

section \<open>Concrete inputs\<close>

text \<open>Small tensors on which the statements below are evaluated.\<close>

definition ex_logits :: "real tensor" where
  "ex_logits = \<lparr>shape = [1, 2], elem = (\<lambda>idx. if idx = [0, 1] then 10 ^ 30 else 0)\<rparr>"

definition ex_mask :: "int tensor" where
  "ex_mask = \<lparr>shape = [1, 2], elem = (\<lambda>idx. if idx = [0, 0] then 1 else 0)\<rparr>"

definition z_logits :: "real tensor" where
  "z_logits = \<lparr>shape = [1, 2], elem = (\<lambda>idx. 0)\<rparr>"

definition z_mask :: "int tensor" where
  "z_mask = \<lparr>shape = [1, 2], elem = (\<lambda>idx. 0)\<rparr>"

definition ex_inputs :: "real tensor" where
  "ex_inputs = \<lparr>shape = [1, 2, 1], elem = (\<lambda>idx. 1)\<rparr>"

definition ex_masks :: "int tensor" where
  "ex_masks = \<lparr>shape = [1, 2], elem = (\<lambda>idx. 1)\<rparr>"

definition ba_self :: BasicAttn where
  "ba_self = BasicAttn.make 1 1 1"

definition ba_keys :: "real tensor" where
  "ba_keys = \<lparr>shape = [1, 1, 1], elem = (\<lambda>idx. 1)\<rparr>"

definition ba_mask :: "int tensor" where
  "ba_mask = \<lparr>shape = [1, 2], elem = (\<lambda>idx. if idx = [0, 0] then 1 else 0)\<rparr>"

definition ba_values_huge :: "real tensor" where
  "ba_values_huge = \<lparr>shape = [1, 2, 1], elem = (\<lambda>idx. if idx = [0, 1, 0] then 10 ^ 30 else 0)\<rparr>"

definition ba_values :: "real tensor" where
  "ba_values = \<lparr>shape = [1, 2, 1], elem = (\<lambda>idx. 1 + real (idx ! 1))\<rparr>"

definition sa_self :: SelfAttn where
  "sa_self = SelfAttn.make 1 1 1"

definition sa_contexts :: "real tensor" where
  "sa_contexts = \<lparr>shape = [1, 2, 1], elem = (\<lambda>idx. 0)\<rparr>"

definition sa_mask :: "int tensor" where
  "sa_mask = \<lparr>shape = [1, 2], elem = (\<lambda>idx. if idx = [0, 0] then 1 else 0)\<rparr>"

definition sa_zero :: "real tensor" where
  "sa_zero = \<lparr>shape = [1, 1], elem = (\<lambda>idx. 0)\<rparr>"

definition sa_one :: "real tensor" where
  "sa_one = \<lparr>shape = [1, 1], elem = (\<lambda>idx. 1)\<rparr>"

definition bi_self :: BidirectionAttn where
  "bi_self = BidirectionAttn.make 1 1"

definition bi_contexts :: "real tensor" where
  "bi_contexts = \<lparr>shape = [1, 1, 2], elem = (\<lambda>idx. 1 + real (idx ! 2))\<rparr>"

definition bi_questions :: "real tensor" where
  "bi_questions = \<lparr>shape = [1, 1, 2], elem = (\<lambda>idx. 3 + real (idx ! 2))\<rparr>"

definition bi_w1 :: "real tensor" where
  "bi_w1 = \<lparr>shape = [2], elem = (\<lambda>idx. 1)\<rparr>"

definition bi_w2 :: "real tensor" where
  "bi_w2 = \<lparr>shape = [2], elem = (\<lambda>idx. if idx = [0] then 1 else 0)\<rparr>"

definition bi_w3 :: "real tensor" where
  "bi_w3 = \<lparr>shape = [2], elem = (\<lambda>idx. if idx = [1] then 1 else 0)\<rparr>"

definition bi_qmask :: "int tensor" where
  "bi_qmask = \<lparr>shape = [1, 1], elem = (\<lambda>idx. 1)\<rparr>"

definition bi_cmask :: "int tensor" where
  "bi_cmask = \<lparr>shape = [1, 1], elem = (\<lambda>idx. 1)\<rparr>"


definition ex_run :: "nat \<Rightarrow> direction \<Rightarrow> rnn_cell \<Rightarrow> cell_fn" where
  "ex_run i d c x st = (map2 (+) x st, map2 (+) x st)"

definition f_logits :: "real tensor" where
  "f_logits = \<lparr>shape = [1, 2], elem = (\<lambda>idx. real (idx ! 1))\<rparr>"

definition f_logits_huge :: "real tensor" where
  "f_logits_huge = \<lparr>shape = [1, 2], elem = (\<lambda>idx. if idx = [0, 1] then float32 (10 ^ 30) else 0)\<rparr>"

definition bq_contexts :: "real tensor" where
  "bq_contexts = \<lparr>shape = [1, 2, 2], elem = (\<lambda>idx. 1 + 2 * real (idx ! 1) + real (idx ! 2))\<rparr>"

definition bq_questions :: "real tensor" where
  "bq_questions = \<lparr>shape = [1, 2, 2], elem = (\<lambda>idx. if idx = [0, 1, 0] then 10 else 0)\<rparr>"

definition bq_w3 :: "real tensor" where
  "bq_w3 = \<lparr>shape = [2], elem = (\<lambda>idx. if idx = [0] then 1 else 0)\<rparr>"

definition bq_qmask :: "int tensor" where
  "bq_qmask = \<lparr>shape = [1, 2], elem = (\<lambda>idx. if idx = [0, 0] then 1 else 0)\<rparr>"

definition bq_cmask :: "int tensor" where
  "bq_cmask = \<lparr>shape = [1, 2], elem = (\<lambda>idx. 1)\<rparr>"

section \<open>Facts about indices and broadcasting\<close>

lemma valid_index_length: "valid_index s idx \<Longrightarrow> length idx = length s"
  by (simp add: valid_index_def list_all2_lengthD)

lemma valid_index_nth: "valid_index s idx \<Longrightarrow> k < length s \<Longrightarrow> idx ! k < s ! k"
  by (simp add: valid_index_def list_all2_conv_all_nth)

lemma valid_index_update:
  "valid_index s idx \<Longrightarrow> k < s ! ax \<Longrightarrow> valid_index s (idx[ax := k])"
  unfolding valid_index_def list_all2_conv_all_nth
  by (metis length_list_update nth_list_update_eq nth_list_update_neq)

lemma bcast_index_valid: "valid_index s idx \<Longrightarrow> bcast_index s idx = idx"
  by (auto simp: bcast_index_def valid_index_def list_all2_conv_all_nth intro!: nth_equalityI)

lemma bcast_index_scalar [simp]: "bcast_index [] idx = []"
  by (simp add: bcast_index_def)

lemma bcast_shape_scalar_left [simp]: "bcast_shape [] s = s"
  by (auto simp: bcast_shape_def pad_shape_def intro!: nth_equalityI)

lemma bcast_shape_scalar_right [simp]: "bcast_shape s [] = s"
  by (auto simp: bcast_shape_def pad_shape_def intro!: nth_equalityI)

lemma bcast_shape_same [simp]: "bcast_shape s s = s"
  by (auto simp: bcast_shape_def pad_shape_def intro!: nth_equalityI)

lemma bcast_index_idem:
  "length s \<le> length idx \<Longrightarrow> bcast_index s (bcast_index s idx) = bcast_index s idx"
  by (auto simp: bcast_index_def intro!: nth_equalityI)

lemma sum_list_upt_sum: "sum_list (map f [0..<n]) = (\<Sum>k<n. f k)"
  by (simp add: interv_sum_list_conv_sum_set_nat atLeast0LessThan)

lemma softmax_row_sum:
  fixes x :: "nat \<Rightarrow> real"
  assumes "0 < n"
  shows "(\<Sum>k<n. exp (x k) / (\<Sum>j<n. exp (x j))) = 1"
proof -
  have pos: "0 < (\<Sum>j<n. exp (x j))"
    using assms by (intro sum_pos) auto
  have "(\<Sum>k<n. exp (x k) / (\<Sum>j<n. exp (x j))) = (\<Sum>k<n. exp (x k)) / (\<Sum>j<n. exp (x j))"
    by (rule sum_divide_distrib [symmetric])
  also have "\<dots> = 1" using pos by simp
  finally show ?thesis .
qed


lemma shape_masked_logits:
  "shape (fst (masked_softmax logits msk axis)) = bcast_shape (shape logits) (shape msk)"
  by (simp add: masked_softmax_def tf_add_def tf_mul_def tf_sub_def tf_binop_def tf_scalar_def
      tf_cast_float_def Let_def)

lemma elem_masked_logits:
  "length (shape msk) \<le> length idx \<Longrightarrow>
   elem (fst (masked_softmax logits msk axis)) idx =
     elem logits (bcast_index (shape logits) idx)
       + (1 - real_of_int (elem msk (bcast_index (shape msk) idx))) * (- (10 ^ 30))"
  by (simp add: masked_softmax_def tf_add_def tf_mul_def tf_sub_def tf_binop_def tf_scalar_def
      tf_cast_float_def Let_def bcast_index_idem)

lemma masked_softmax_snd:
  "snd (masked_softmax logits msk axis) = tf_softmax (fst (masked_softmax logits msk axis)) axis"
  by (simp add: masked_softmax_def Let_def)

lemma norm_axis_nat [simp]: "norm_axis r (int ax) = ax"
  by (simp add: norm_axis_def)

lemma elem_masked_logits_same:
  assumes "shape msk = shape logits" "valid_index (shape logits) idx"
  shows "elem (fst (masked_softmax logits msk axis)) idx =
           elem logits idx + (1 - real_of_int (elem msk idx)) * (- (10 ^ 30))"
  using assms
  by (simp add: elem_masked_logits valid_index_length bcast_index_valid)

lemma row_sum_softmax:
  assumes "0 < shape x ! ax"
  shows "row_sum (tf_softmax x (int ax)) ax idx = 1"
proof -
  have "row_sum (tf_softmax x (int ax)) ax idx =
        (\<Sum>k<shape x ! ax. exp (elem x (idx[ax := k])) / (\<Sum>j<shape x ! ax. exp (elem x (idx[ax := j]))))"
    by (simp add: row_sum_def tf_softmax_def norm_axis_def sum_list_upt_sum)
  also have "\<dots> = 1"
    using assms by (rule softmax_row_sum)
  finally show ?thesis .
qed

lemma upt2: "[0..<2] = [0, Suc 0]"
  by (simp add: upt_rec)

subsection \<open>The constructor of the encoder\<close>

lemma append_cells_unsupported:
  "mode self \<noteq> ''GRU'' \<Longrightarrow> mode self \<noteq> ''LSTM'' \<Longrightarrow> append_cells self = self"
  by (simp add: append_cells_def)

lemma funpow_append_cells_unsupported:
  "mode self \<noteq> ''GRU'' \<Longrightarrow> mode self \<noteq> ''LSTM'' \<Longrightarrow> (append_cells ^^ n) self = self"
  by (induction n) (simp_all add: append_cells_unsupported)

subsection \<open>Rank-3 tensors and \<open>BasicAttn\<close>\<close>

lemma upt3: "[0..<3] = [0, Suc 0, 2]"
  by (simp add: upt_rec numeral_3_eq_3 numeral_2_eq_2)

lemma list_update3_2 [simp]: "[a, b, c][2 := k] = [a, b, k]"
  by (simp add: numeral_2_eq_2)

lemma nth3_2 [simp]: "[a, b, c] ! 2 = c"
  by (simp add: numeral_2_eq_2)

lemma valid_index3 [simp]: "valid_index [B, N, M] [b, i, j] \<longleftrightarrow> b < B \<and> i < N \<and> j < M"
  by (simp add: valid_index_def)

lemma valid_index2 [simp]: "valid_index [B, N] [b, i] \<longleftrightarrow> b < B \<and> i < N"
  by (simp add: valid_index_def)

lemma elem_transpose_021:
  "elem (tf_transpose x [0, 2, Suc 0]) [b, i, j] = elem x [b, j, i]"
  by (simp add: tf_transpose_def upt3)

lemma shape_transpose_021:
  "shape x = [B, N, M] \<Longrightarrow> shape (tf_transpose x [0, 2, Suc 0]) = [B, M, N]"
  by (simp add: tf_transpose_def)

lemma elem_matmul3:
  "elem (tf_matmul x y) [b, i, j] =
     (\<Sum>k<shape x ! (length (shape x) - 1). elem x [b, i, k] * elem y [b, k, j])"
  by (simp add: tf_matmul_def sum_list_upt_sum numeral_2_eq_2)

lemma shape_matmul3:
  "shape x = [B, N, K] \<Longrightarrow> shape y = [B, K, M] \<Longrightarrow> shape (tf_matmul x y) = [B, N, M]"
  by (simp add: tf_matmul_def numeral_2_eq_2)

lemma bcast_index_mid1:
  "b < B \<Longrightarrow> j < V \<Longrightarrow> bcast_index [B, Suc 0, V] [b, i, j] = [b, 0, j]"
  by (auto simp: bcast_index_def)

lemma bcast_shape_mid1 [simp]: "bcast_shape [B, K, V] [B, Suc 0, V] = [B, K, V]"
  by (simp add: bcast_shape_def pad_shape_def)

lemma elem_softmax3:
  "shape x = [B, N, M] \<Longrightarrow>
   elem (tf_softmax x 2) [b, i, j] = exp (elem x [b, i, j]) / (\<Sum>k<M. exp (elem x [b, i, k]))"
  by (simp add: tf_softmax_def norm_axis_def sum_list_upt_sum)

lemma shape_softmax [simp]: "shape (tf_softmax x axis) = shape x"
  by (simp add: tf_softmax_def Let_def)

lemma shape_dropout [simp]: "shape (tf_dropout x p noise) = shape x"
  by (simp add: tf_dropout_def)

lemma elem_dropout: "elem (tf_dropout x p noise) idx = dropout_value (elem x idx) p (noise idx)"
  by (simp add: tf_dropout_def)

lemma shape_expand_dims_1:
  "shape x = [B, V] \<Longrightarrow> shape (tf_expand_dims x 1) = [B, Suc 0, V]"
  by (simp add: tf_expand_dims_def norm_axis_def insert_at_def)

lemma elem_expand_dims_1: "elem (tf_expand_dims x 1) [b, i, j] = elem x [b, j]"
  by (simp add: tf_expand_dims_def norm_axis_def remove_at_def)

lemma BasicAttn_dist:
  assumes "shape values = [B, V, D]" "shape values_mask = [B, V]" "shape keys = [B, K, D]"
    and "b < B" "i < K" "j < V"
  shows "elem (fst (BasicAttn_build_graph self noise values values_mask keys)) [b, i, j] =
           exp (attn_logit keys values b i j + (1 - real_of_int (elem values_mask [b, j])) * (- (10 ^ 30)))
           / (\<Sum>k<V. exp (attn_logit keys values b i k + (1 - real_of_int (elem values_mask [b, k])) * (- (10 ^ 30))))"
proof -
  let ?logits = "tf_matmul keys (tf_transpose values [0, 2, Suc 0])"
  let ?m = "tf_expand_dims values_mask 1"
  have shl: "shape ?logits = [B, K, V]"
    using assms by (simp add: shape_matmul3 shape_transpose_021)
  have shm: "shape ?m = [B, Suc 0, V]"
    using assms by (simp add: shape_expand_dims_1)
  have shml: "shape (fst (masked_softmax ?logits ?m 2)) = [B, K, V]"
    by (simp add: shape_masked_logits shl shm)
  have ml: "elem (fst (masked_softmax ?logits ?m 2)) [b, i, k] =
      attn_logit keys values b i k + (1 - real_of_int (elem values_mask [b, k])) * (- (10 ^ 30))"
    if "k < V" for k
  proof -
    have "elem (fst (masked_softmax ?logits ?m 2)) [b, i, k] =
        elem ?logits (bcast_index (shape ?logits) [b, i, k])
          + (1 - real_of_int (elem ?m (bcast_index (shape ?m) [b, i, k]))) * (- (10 ^ 30))"
      by (rule elem_masked_logits) (simp add: shm)
    also have "bcast_index (shape ?logits) [b, i, k] = [b, i, k]"
      using that assms by (simp add: shl bcast_index_valid)
    also have "bcast_index (shape ?m) [b, i, k] = [b, 0, k]"
      using that assms by (simp add: shm bcast_index_mid1)
    also have "elem ?m [b, 0, k] = elem values_mask [b, k]"
      by (rule elem_expand_dims_1)
    also have "elem ?logits [b, i, k] = attn_logit keys values b i k"
      using assms by (simp add: elem_matmul3 elem_transpose_021 attn_logit_def)
    finally show ?thesis .
  qed
  have "elem (fst (BasicAttn_build_graph self noise values values_mask keys)) [b, i, j] =
      elem (tf_softmax (fst (masked_softmax ?logits ?m 2)) 2) [b, i, j]"
    by (simp add: BasicAttn_build_graph_def Let_def masked_softmax_snd)
  also have "\<dots> = exp (elem (fst (masked_softmax ?logits ?m 2)) [b, i, j])
      / (\<Sum>k<V. exp (elem (fst (masked_softmax ?logits ?m 2)) [b, i, k]))"
    by (rule elem_softmax3 [OF shml])
  also have "\<dots> = exp (attn_logit keys values b i j + (1 - real_of_int (elem values_mask [b, j])) * (- (10 ^ 30)))
           / (\<Sum>k<V. exp (attn_logit keys values b i k + (1 - real_of_int (elem values_mask [b, k])) * (- (10 ^ 30))))"
    using assms(6) by (simp add: ml)
  finally show ?thesis .
qed

lemma dropout_value_one: "0 \<le> u \<Longrightarrow> u < 1 \<Longrightarrow> dropout_value x 1 u = x"
proof -
  assume "0 \<le> u" "u < 1"
  then have "\<lfloor>1 + u\<rfloor> = 1" by linarith
  then show ?thesis by (simp add: dropout_value_def)
qed

lemma BasicAttn_shape_dist:
  assumes "shape values = [B, V, D]" "shape values_mask = [B, V]" "shape keys = [B, K, D]"
  shows "shape (fst (BasicAttn_build_graph self noise values values_mask keys)) = [B, K, V]"
  using assms
  by (simp add: BasicAttn_build_graph_def Let_def masked_softmax_snd shape_masked_logits
      shape_matmul3 [OF _ shape_transpose_021] shape_expand_dims_1)

lemma lessThan_2: "{..<2::nat} = {0, 1}"
  by auto

subsection \<open>\<open>SelfAttn\<close>\<close>

lemma masked_softmax3:
  assumes "shape logits = [B, N, M]" "shape msk = [B, N, M]" "b < B" "i < N" "j < M"
  shows "elem (snd (masked_softmax logits msk 2)) [b, i, j] =
     exp (elem logits [b, i, j] + (1 - real_of_int (elem msk [b, i, j])) * (- (10 ^ 30)))
     / (\<Sum>k<M. exp (elem logits [b, i, k] + (1 - real_of_int (elem msk [b, i, k])) * (- (10 ^ 30))))"
proof -
  have shml: "shape (fst (masked_softmax logits msk 2)) = [B, N, M]"
    by (simp add: shape_masked_logits assms)
  have ml: "elem (fst (masked_softmax logits msk 2)) [b, i, k] =
      elem logits [b, i, k] + (1 - real_of_int (elem msk [b, i, k])) * (- (10 ^ 30))" if "k < M" for k
    using that assms by (intro elem_masked_logits_same) simp_all
  have "elem (snd (masked_softmax logits msk 2)) [b, i, j] =
      exp (elem (fst (masked_softmax logits msk 2)) [b, i, j])
      / (\<Sum>k<M. exp (elem (fst (masked_softmax logits msk 2)) [b, i, k]))"
    unfolding masked_softmax_snd by (rule elem_softmax3 [OF shml])
  then show ?thesis
    using assms(5) by (simp add: ml)
qed

lemma shape_masked_dist:
  "shape (snd (masked_softmax logits msk axis)) = bcast_shape (shape logits) (shape msk)"
  by (simp add: masked_softmax_snd shape_masked_logits)



lemma bcast_shape_outer [simp]: "bcast_shape [B, N, Suc 0] [B, Suc 0, M] = [B, N, M]"
  by (simp add: bcast_shape_def pad_shape_def)

lemma bcast_index_last1:
  "b < B \<Longrightarrow> i < N \<Longrightarrow> bcast_index [B, N, Suc 0] [b, i, j] = [b, i, 0]"
  by (auto simp: bcast_index_def)



lemma unravel_col [simp]: "unravel [n, Suc 0] r = [r, 0]"
  by simp










lemma sa_self_attention_size [simp]: "attention_size sa_self = 1"
  by (simp add: sa_self_def SelfAttn.defs)

subsection \<open>Reshaping and the similarity matrix\<close>

lemma ravel_less: "valid_index s idx \<Longrightarrow> ravel s idx < prod_list s"
  unfolding valid_index_def
proof (induction idx s rule: list_all2_induct)
  case Nil
  then show ?case by simp
next
  case (Cons i idx d s)
  have "i * prod_list s + ravel s idx < i * prod_list s + prod_list s"
    using Cons.IH by simp
  also have "\<dots> = Suc i * prod_list s" by simp
  also have "\<dots> \<le> d * prod_list s"
    using Cons.hyps(1) by (intro mult_le_mono1) simp
  finally show ?case by simp
qed

lemma unravel_ravel: "valid_index s idx \<Longrightarrow> unravel s (ravel s idx) = idx"
  unfolding valid_index_def
proof (induction idx s rule: list_all2_induct)
  case Nil
  then show ?case by simp
next
  case (Cons i idx d s)
  have "ravel s idx < prod_list s"
    using Cons.hyps(2) by (intro ravel_less) (simp add: valid_index_def)
  then show ?case
    using Cons.IH by simp
qed

lemma elem_reshape:
  assumes "valid_index (shape x) idx"
    and "ravel (infer_shape (prod_list (shape x)) s) idx' = ravel (shape x) idx"
  shows "elem (tf_reshape x s) idx' = elem x idx"
  using assms by (simp add: tf_reshape_def Let_def unravel_ravel)

lemma shape_reshape: "shape (tf_reshape x s) = infer_shape (prod_list (shape x)) s"
  by (simp add: tf_reshape_def Let_def)

lemma infer_shape_lead2: "infer_shape t [- 1, int N] = [t div N, N]"
  by (simp add: infer_shape_def)

lemma infer_shape_lead_last1: "infer_shape t [- 1, int N, 1] = [t div N, N, Suc 0]"
  by (simp add: infer_shape_def)

lemma infer_shape_lead_mid1: "infer_shape t [- 1, 1, int M] = [t div M, Suc 0, M]"
  by (simp add: infer_shape_def)

lemma infer_shape_known_nat: "0 < d \<Longrightarrow> infer_shape t [int n, d] = [n, nat d]"
  by (simp add: infer_shape_def)

lemma infer_shape_lead_known: "0 < d \<Longrightarrow> infer_shape t [- 1, d] = [t div nat d, nat d]"
  by (simp add: infer_shape_def)

lemma infer_shape_lead_known3: "0 < d \<Longrightarrow> infer_shape t [- 1, int N, d] = [t div (N * nat d), N, nat d]"
  by (simp add: infer_shape_def)

lemma shape_expand_dims_last:
  "shape w = [D] \<Longrightarrow> shape (tf_expand_dims w (- 1)) = [D, Suc 0]"
  by (simp add: tf_expand_dims_def norm_axis_def insert_at_def)

lemma elem_expand_dims_last:
  "shape w = [D] \<Longrightarrow> elem (tf_expand_dims w (- 1)) [k, c] = elem w [k]"
  by (simp add: tf_expand_dims_def norm_axis_def remove_at_def)

lemma shape_expand_dims_0:
  "shape w = [D] \<Longrightarrow> shape (tf_expand_dims w 0) = [Suc 0, D]"
  by (simp add: tf_expand_dims_def norm_axis_def insert_at_def)

lemma elem_expand_dims_0: "elem (tf_expand_dims w 0) [r, k] = elem w [k]"
  by (simp add: tf_expand_dims_def norm_axis_def remove_at_def)

lemma elem_matmul2:
  "elem (tf_matmul x y) [r, c] = (\<Sum>k<shape x ! (length (shape x) - 1). elem x [r, k] * elem y [k, c])"
  by (simp add: tf_matmul_def sum_list_upt_sum)

lemma projection_term:
  assumes x: "shape x = [A, N, D]" and w: "shape w = [D]" and N: "0 < N"
    and dd: "0 < dd" "D = nat dd" and a: "a < A" and i: "i < N"
  shows "shape (tf_reshape (tf_matmul (tf_reshape x [int (A * N), dd]) (tf_expand_dims w (- 1))) [- 1, int N])
           = [A, N]"
    and "elem (tf_reshape (tf_matmul (tf_reshape x [int (A * N), dd]) (tf_expand_dims w (- 1))) [- 1, int N])
           [a, i] = (\<Sum>k<D. elem x [a, i, k] * elem w [k])"
proof -
  define R where "R = tf_reshape x [int (A * N), dd]"
  define W where "W = tf_expand_dims w (- 1)"
  define P where "P = tf_matmul R W"
  have shR: "shape R = [A * N, D]"
    by (simp add: R_def shape_reshape infer_shape_known_nat [OF dd(1)] dd(2) del: of_nat_mult)
  have R: "elem R [a * N + i, k] = elem x [a, i, k]" if "k < D" for k
    unfolding R_def using that a i x
    by (intro elem_reshape)
      (simp_all add: infer_shape_known_nat [OF dd(1)] dd(2) [symmetric] algebra_simps del: of_nat_mult)
  have shP: "shape P = [A * N, Suc 0]"
    by (simp add: P_def tf_matmul_def shR W_def shape_expand_dims_last [OF w])
  have P: "elem P [a * N + i, 0] = (\<Sum>k<D. elem x [a, i, k] * elem w [k])"
    by (simp add: P_def elem_matmul2 shR R W_def elem_expand_dims_last [OF w])
  have AN: "A * N div N = A" using N by simp
  have shT: "shape (tf_reshape P [- 1, int N]) = [A, N]"
    by (simp add: shape_reshape infer_shape_lead2 shP AN)
  have "a * N + i < A * N"
  proof -
    have "a * N + i < a * N + N" using i by simp
    also have "\<dots> = Suc a * N" by simp
    also have "\<dots> \<le> A * N" using a by (intro mult_le_mono1) simp
    finally show ?thesis .
  qed
  then have T: "elem (tf_reshape P [- 1, int N]) [a, i] = elem P [a * N + i, 0]"
    by (intro elem_reshape) (simp_all add: shP infer_shape_lead2 AN)
  show "shape (tf_reshape (tf_matmul (tf_reshape x [int (A * N), dd]) (tf_expand_dims w (- 1))) [- 1, int N])
           = [A, N]"
    using shT by (simp add: P_def R_def W_def)
  show "elem (tf_reshape (tf_matmul (tf_reshape x [int (A * N), dd]) (tf_expand_dims w (- 1))) [- 1, int N])
           [a, i] = (\<Sum>k<D. elem x [a, i, k] * elem w [k])"
    using T P by (simp add: P_def R_def W_def)
qed

lemma row_index_less: "a < A \<Longrightarrow> i < N \<Longrightarrow> a * N + i < A * (N::nat)"
proof -
  assume a: "a < A" and i: "i < N"
  have "a * N + i < a * N + N" using i by simp
  also have "\<dots> = Suc a * N" by simp
  also have "\<dots> \<le> A * N" using a by (intro mult_le_mono1) simp
  finally show ?thesis .
qed

lemma bcast_shape_row [simp]: "bcast_shape [R, D] [Suc 0, D] = [R, D]"
  by (simp add: bcast_shape_def pad_shape_def)

lemma bcast_index_row: "k < D \<Longrightarrow> bcast_index [Suc 0, D] [r, k] = [0, k]"
  by (auto simp: bcast_index_def)

lemma scaled_contexts:
  assumes x: "shape x = [A, N, D]" and w: "shape w = [D]" and N: "0 < N"
    and dd: "0 < dd" "D = nat dd" and a: "a < A" and i: "i < N" and k: "k < D"
  shows "shape (tf_reshape (tf_mul (tf_reshape x [- 1, dd]) (tf_expand_dims w 0)) [- 1, int N, dd])
           = [A, N, D]"
    and "elem (tf_reshape (tf_mul (tf_reshape x [- 1, dd]) (tf_expand_dims w 0)) [- 1, int N, dd])
           [a, i, k] = elem x [a, i, k] * elem w [k]"
proof -
  define R where "R = tf_reshape x [- 1, dd]"
  define X where "X = tf_mul R (tf_expand_dims w 0)"
  have D: "0 < D" using dd by simp
  have r: "a * N + i < A * N" using a i by (rule row_index_less)
  have shR: "shape R = [A * N, D]"
    using D by (simp add: R_def shape_reshape x infer_shape_lead_known [OF dd(1)] dd(2) [symmetric])
  have R: "elem R [a * N + i, k] = elem x [a, i, k]"
    unfolding R_def using a i k x D
    by (intro elem_reshape)
      (simp_all add: infer_shape_lead_known [OF dd(1)] dd(2) [symmetric] algebra_simps)
  have shX: "shape X = [A * N, D]"
    by (simp add: X_def tf_mul_def tf_binop_def shR shape_expand_dims_0 [OF w])
  have X: "elem X [a * N + i, k] = elem x [a, i, k] * elem w [k]"
    using r k
    by (simp add: X_def tf_mul_def tf_binop_def shR shape_expand_dims_0 [OF w] bcast_index_valid
        bcast_index_row elem_expand_dims_0 R)
  have AND: "A * N * D div (N * D) = A"
    using N D by (simp add: mult.assoc)
  have shC: "shape (tf_reshape X [- 1, int N, dd]) = [A, N, D]"
    by (simp add: shape_reshape shX infer_shape_lead_known3 [OF dd(1)] dd(2) [symmetric] AND)
  have C: "elem (tf_reshape X [- 1, int N, dd]) [a, i, k] = elem X [a * N + i, k]"
    using r k
    by (intro elem_reshape)
      (simp_all add: shX infer_shape_lead_known3 [OF dd(1)] dd(2) [symmetric] AND algebra_simps)
  show "shape (tf_reshape (tf_mul (tf_reshape x [- 1, dd]) (tf_expand_dims w 0)) [- 1, int N, dd])
           = [A, N, D]"
    using shC by (simp add: X_def R_def)
  show "elem (tf_reshape (tf_mul (tf_reshape x [- 1, dd]) (tf_expand_dims w 0)) [- 1, int N, dd])
           [a, i, k] = elem x [a, i, k] * elem w [k]"
    using C X by (simp add: X_def R_def)
qed

lemma bcast_shape_last1 [simp]: "bcast_shape [B, N, Suc 0] [B, N, M] = [B, N, M]"
  by (simp add: bcast_shape_def pad_shape_def)

lemma similarity_matrix_elem:
  assumes q: "shape questions = [BS, M, D]" and c: "shape contexts = [BS, N, D]"
    and w: "shape w_sim_1 = [D]" "shape w_sim_2 = [D]" "shape w_sim_3 = [D]"
    and H: "0 < BidirectionAttn.hidden_size self" "D = nat (2 * BidirectionAttn.hidden_size self)"
    and b: "b < BS" and i: "i < N" and j: "j < M"
  shows "shape (build_similarity_matrix self w_sim_1 w_sim_2 w_sim_3 questions contexts) = [BS, N, M]"
    and "elem (build_similarity_matrix self w_sim_1 w_sim_2 w_sim_3 questions contexts) [b, i, j] =
          (\<Sum>k<D. elem contexts [b, i, k] * elem w_sim_1 [k])
        + (\<Sum>k<D. elem contexts [b, i, k] * elem w_sim_3 [k] * elem questions [b, j, k])
        + (\<Sum>k<D. elem questions [b, j, k] * elem w_sim_2 [k])"
proof -
  let ?H = "BidirectionAttn.hidden_size self"
  define term1 where "term1 = tf_reshape (tf_matmul (tf_reshape contexts [int (BS * N), 2 * ?H])
      (tf_expand_dims w_sim_1 (- 1))) [- 1, int N]"
  define term2 where "term2 = tf_reshape (tf_matmul (tf_reshape questions [int (BS * M), 2 * ?H])
      (tf_expand_dims w_sim_2 (- 1))) [- 1, int M]"
  define CW where "CW = tf_reshape (tf_mul (tf_reshape contexts [- 1, 2 * ?H]) (tf_expand_dims w_sim_3 0))
      [- 1, int N, 2 * ?H]"
  define term3 where "term3 = tf_matmul CW (tf_transpose questions [0, 2, Suc 0])"
  define T1 where "T1 = tf_reshape term1 [- 1, int N, 1]"
  define T2 where "T2 = tf_reshape term2 [- 1, 1, int M]"
  have S: "build_similarity_matrix self w_sim_1 w_sim_2 w_sim_3 questions contexts =
      tf_add (tf_add T1 term3) T2"
    by (simp add: build_similarity_matrix_def Let_def q c T1_def T2_def term1_def term2_def term3_def
        CW_def del: of_nat_mult)
  have dd: "0 < 2 * ?H" using H(1) by simp
  have D: "0 < D" using H by simp
  have N: "0 < N" using i by simp
  have M: "0 < M" using j by simp
  have sh1: "shape term1 = [BS, N]"
    unfolding term1_def using c w(1) N dd H(2) b i by (rule projection_term(1))
  have e1: "elem term1 [b, i] = (\<Sum>k<D. elem contexts [b, i, k] * elem w_sim_1 [k])"
    unfolding term1_def using c w(1) N dd H(2) b i by (rule projection_term(2))
  have sh2: "shape term2 = [BS, M]"
    unfolding term2_def using q w(2) M dd H(2) b j by (rule projection_term(1))
  have e2: "elem term2 [b, j] = (\<Sum>k<D. elem questions [b, j, k] * elem w_sim_2 [k])"
    unfolding term2_def using q w(2) M dd H(2) b j by (rule projection_term(2))
  have shC: "shape CW = [BS, N, D]"
    unfolding CW_def using c w(3) N dd H(2) b i D by (rule scaled_contexts(1))
  have eC: "elem CW [b, i, k] = elem contexts [b, i, k] * elem w_sim_3 [k]" if "k < D" for k
    unfolding CW_def using c w(3) N dd H(2) b i that by (rule scaled_contexts(2))
  have sh3: "shape term3 = [BS, N, M]"
    unfolding term3_def using shC shape_transpose_021 [OF q] by (rule shape_matmul3)
  have e3: "elem term3 [b, i, j] =
      (\<Sum>k<D. elem contexts [b, i, k] * elem w_sim_3 [k] * elem questions [b, j, k])"
    by (simp add: term3_def elem_matmul3 shC elem_transpose_021 eC)
  have shT1: "shape T1 = [BS, N, Suc 0]"
    using N by (simp add: T1_def shape_reshape sh1 infer_shape_lead_last1)
  have eT1: "elem T1 [b, i, 0] = elem term1 [b, i]"
    unfolding T1_def using b i N
    by (intro elem_reshape) (simp_all add: sh1 infer_shape_lead_last1)
  have shT2: "shape T2 = [BS, Suc 0, M]"
    using M by (simp add: T2_def shape_reshape sh2 infer_shape_lead_mid1)
  have eT2: "elem T2 [b, 0, j] = elem term2 [b, j]"
    unfolding T2_def using b j M
    by (intro elem_reshape) (simp_all add: sh2 infer_shape_lead_mid1)
  show "shape (build_similarity_matrix self w_sim_1 w_sim_2 w_sim_3 questions contexts) = [BS, N, M]"
    by (simp add: S tf_add_def tf_binop_def shT1 sh3 shT2)
  have "elem (tf_add (tf_add T1 term3) T2) [b, i, j] =
      elem T1 [b, i, 0] + elem term3 [b, i, j] + elem T2 [b, 0, j]"
    using b i j
    by (simp add: tf_add_def tf_binop_def shT1 sh3 shT2 bcast_index_valid bcast_index_last1
        bcast_index_mid1)
  then show "elem (build_similarity_matrix self w_sim_1 w_sim_2 w_sim_3 questions contexts) [b, i, j] =
          (\<Sum>k<D. elem contexts [b, i, k] * elem w_sim_1 [k])
        + (\<Sum>k<D. elem contexts [b, i, k] * elem w_sim_3 [k] * elem questions [b, j, k])
        + (\<Sum>k<D. elem questions [b, j, k] * elem w_sim_2 [k])"
    by (simp add: S eT1 e1 e3 eT2 e2)
qed

lemma bi_self_hidden_size [simp]: "BidirectionAttn.hidden_size bi_self = 1"
  by (simp add: bi_self_def BidirectionAttn.defs)

lemma bi_self_keep_prob [simp]: "BidirectionAttn.keep_prob bi_self = 1"
  by (simp add: bi_self_def BidirectionAttn.defs)

subsection \<open>\<open>BidirectionAttn\<close>\<close>

lemma shape_expand_dims_last2:
  "shape x = [B, N] \<Longrightarrow> shape (tf_expand_dims x (- 1)) = [B, N, Suc 0]"
  by (simp add: tf_expand_dims_def norm_axis_def insert_at_def)

lemma elem_expand_dims_last2:
  "shape x = [B, N] \<Longrightarrow> elem (tf_expand_dims x (- 1)) [b, i, j] = elem x [b, i]"
  by (simp add: tf_expand_dims_def norm_axis_def remove_at_def)

lemma similarity_mask_shape:
  assumes "shape questions_mask = [BS, M]" "shape contexts_mask = [BS, N]"
  shows "shape (similarity_mask questions_mask contexts_mask) = [BS, N, M]"
  using shape_matmul3 [OF shape_expand_dims_last2 [OF assms(2)]
      shape_transpose_021 [OF shape_expand_dims_last2 [OF assms(1)]]]
  by (simp add: similarity_mask_def Let_def)

lemma similarity_mask_elem:
  assumes "shape questions_mask = [BS, M]" "shape contexts_mask = [BS, N]"
  shows "elem (similarity_mask questions_mask contexts_mask) [b, i, j] =
           elem contexts_mask [b, i] * elem questions_mask [b, j]"
  by (simp add: similarity_mask_def Let_def elem_matmul3 shape_expand_dims_last2 [OF assms(2)]
      elem_transpose_021 elem_expand_dims_last2 [OF assms(1)] elem_expand_dims_last2 [OF assms(2)])

lemma BidirectionAttn_alpha:
  "fst (BidirectionAttn_build_graph self w_sim_1 w_sim_2 w_sim_3 noise
          questions questions_mask contexts contexts_mask) =
   snd (masked_softmax (build_similarity_matrix self w_sim_1 w_sim_2 w_sim_3 questions contexts)
          (similarity_mask questions_mask contexts_mask) 2)"
  by (simp add: BidirectionAttn_build_graph_def Let_def case_prod_unfold)

lemma BidirectionAttn_beta:
  "fst (snd (BidirectionAttn_build_graph self w_sim_1 w_sim_2 w_sim_3 noise
          questions questions_mask contexts contexts_mask)) =
   tf_reshape (tf_transpose (tf_expand_dims (tf_softmax (tf_reduce_max
     (fst (masked_softmax (build_similarity_matrix self w_sim_1 w_sim_2 w_sim_3 questions contexts)
          (similarity_mask questions_mask contexts_mask) 2)) 2) (- 1)) (- 1)) [0, 2, Suc 0])
     [- 1, int (shape contexts ! 1)]"
  by (simp add: BidirectionAttn_build_graph_def Let_def case_prod_unfold)

lemma BidirectionAttn_output:
  "snd (snd (BidirectionAttn_build_graph self w_sim_1 w_sim_2 w_sim_3 noise
          questions questions_mask contexts contexts_mask)) =
   (let alpha = snd (masked_softmax (build_similarity_matrix self w_sim_1 w_sim_2 w_sim_3 questions contexts)
          (similarity_mask questions_mask contexts_mask) 2);
        beta = tf_transpose (tf_expand_dims (tf_softmax (tf_reduce_max
          (fst (masked_softmax (build_similarity_matrix self w_sim_1 w_sim_2 w_sim_3 questions contexts)
          (similarity_mask questions_mask contexts_mask) 2)) 2) (- 1)) (- 1)) [0, 2, Suc 0];
        c2q_output = tf_matmul alpha questions;
        q2c_output = tf_tile (tf_matmul beta contexts) [1, shape contexts ! 1, 1]
    in tf_dropout (tf_concat [c2q_output, tf_mul c2q_output contexts, tf_mul q2c_output contexts] 2)
         (BidirectionAttn.keep_prob self) noise)"
  by (simp add: BidirectionAttn_build_graph_def Let_def case_prod_unfold)

lemma shape_reduce_axis2:
  "shape x = [B, N, M] \<Longrightarrow> shape (tf_reduce_sum x 2) = [B, N]"
  "shape y = [B, N, M] \<Longrightarrow> shape (tf_reduce_max y 2) = [B, N]"
  by (simp_all add: tf_reduce_sum_def tf_reduce_max_def norm_axis_def remove_at_def)


lemma elem_reduce_max_axis2:
  "shape x = [B, N, M] \<Longrightarrow> elem (tf_reduce_max x 2) [b, i] = Max ((\<lambda>k. elem x [b, i, k]) ` {..<M})"
  by (simp add: tf_reduce_max_def norm_axis_def insert_at_def atLeast0LessThan)

lemma BidirectionAttn_alpha_elem:
  assumes q: "shape questions = [BS, M, D]" and c: "shape contexts = [BS, N, D]"
    and w: "shape w_sim_1 = [D]" "shape w_sim_2 = [D]" "shape w_sim_3 = [D]"
    and H: "0 < BidirectionAttn.hidden_size self" "D = nat (2 * BidirectionAttn.hidden_size self)"
    and qm: "shape questions_mask = [BS, M]" and cm: "shape contexts_mask = [BS, N]"
    and b: "b < BS" and i: "i < N" and j: "j < M"
  shows "shape (fst (BidirectionAttn_build_graph self w_sim_1 w_sim_2 w_sim_3 noise
            questions questions_mask contexts contexts_mask)) = [BS, N, M]"
    and "elem (fst (BidirectionAttn_build_graph self w_sim_1 w_sim_2 w_sim_3 noise
            questions questions_mask contexts contexts_mask)) [b, i, j] =
      exp (elem (build_similarity_matrix self w_sim_1 w_sim_2 w_sim_3 questions contexts) [b, i, j]
           + (1 - real_of_int (elem contexts_mask [b, i] * elem questions_mask [b, j])) * (- (10 ^ 30)))
      / (\<Sum>k<M. exp (elem (build_similarity_matrix self w_sim_1 w_sim_2 w_sim_3 questions contexts) [b, i, k]
           + (1 - real_of_int (elem contexts_mask [b, i] * elem questions_mask [b, k])) * (- (10 ^ 30))))"
proof -
  let ?S = "build_similarity_matrix self w_sim_1 w_sim_2 w_sim_3 questions contexts"
  let ?M = "similarity_mask questions_mask contexts_mask"
  have shS: "shape ?S = [BS, N, M]"
    using q c w H b i j by (rule similarity_matrix_elem(1))
  have shM: "shape ?M = [BS, N, M]"
    using qm cm by (rule similarity_mask_shape)
  show "shape (fst (BidirectionAttn_build_graph self w_sim_1 w_sim_2 w_sim_3 noise
            questions questions_mask contexts contexts_mask)) = [BS, N, M]"
    by (simp add: BidirectionAttn_alpha shape_masked_dist shS shM)
  have "elem (snd (masked_softmax ?S ?M 2)) [b, i, j] =
      exp (elem ?S [b, i, j] + (1 - real_of_int (elem ?M [b, i, j])) * (- (10 ^ 30)))
      / (\<Sum>k<M. exp (elem ?S [b, i, k] + (1 - real_of_int (elem ?M [b, i, k])) * (- (10 ^ 30))))"
    using shS shM b i j by (rule masked_softmax3)
  then show "elem (fst (BidirectionAttn_build_graph self w_sim_1 w_sim_2 w_sim_3 noise
            questions questions_mask contexts contexts_mask)) [b, i, j] =
      exp (elem ?S [b, i, j]
           + (1 - real_of_int (elem contexts_mask [b, i] * elem questions_mask [b, j])) * (- (10 ^ 30)))
      / (\<Sum>k<M. exp (elem ?S [b, i, k]
           + (1 - real_of_int (elem contexts_mask [b, i] * elem questions_mask [b, k])) * (- (10 ^ 30))))"
    by (simp add: BidirectionAttn_alpha similarity_mask_elem [OF qm cm])
qed

lemma elem_softmax2_last:
  "shape x = [B, N] \<Longrightarrow>
   elem (tf_softmax x (- 1)) [b, i] = exp (elem x [b, i]) / (\<Sum>k<N. exp (elem x [b, k]))"
  by (simp add: tf_softmax_def norm_axis_def sum_list_upt_sum)

lemma shape_tile3:
  "shape x = [A, B, C] \<Longrightarrow> shape (tf_tile x [a, b, c]) = [A * a, B * b, C * c]"
  by (simp add: tf_tile_def)

lemma elem_tile_mid:
  "shape x = [A, Suc 0, C] \<Longrightarrow> b < A \<Longrightarrow> k < C \<Longrightarrow> elem (tf_tile x m) [b, i, k] = elem x [b, 0, k]"
  by (simp add: tf_tile_def)

lemma shape_mul_same: "shape x = s \<Longrightarrow> shape y = s \<Longrightarrow> shape (tf_mul x y) = s"
  by (simp add: tf_mul_def tf_binop_def)

lemma elem_mul_same:
  "shape x = s \<Longrightarrow> shape y = s \<Longrightarrow> valid_index s idx \<Longrightarrow>
   elem (tf_mul x y) idx = elem x idx * elem y idx"
  by (simp add: tf_mul_def tf_binop_def bcast_index_valid)

lemma concat3_third:
  assumes "shape x = [B, N, D]" "shape y = [B, N, D]" "shape z = [B, N, D]"
  shows "shape (tf_concat [x, y, z] 2) = [B, N, 3 * D]"
    and "k < D \<Longrightarrow> elem (tf_concat [x, y, z] 2) [b, i, 2 * D + k] = elem z [b, i, k]"
  using assms by (simp_all add: tf_concat_def)

lemma BidirectionAttn_beta_elem:
  assumes q: "shape questions = [BS, M, D]" and c: "shape contexts = [BS, N, D]"
    and w: "shape w_sim_1 = [D]" "shape w_sim_2 = [D]" "shape w_sim_3 = [D]"
    and H: "0 < BidirectionAttn.hidden_size self" "D = nat (2 * BidirectionAttn.hidden_size self)"
    and qm: "shape questions_mask = [BS, M]" and cm: "shape contexts_mask = [BS, N]"
    and b: "b < BS" and i: "i < N" and M: "0 < M"
  defines "Sm \<equiv> fst (masked_softmax (build_similarity_matrix self w_sim_1 w_sim_2 w_sim_3 questions contexts)
          (similarity_mask questions_mask contexts_mask) 2)"
  defines "beta3 \<equiv> tf_transpose (tf_expand_dims (tf_softmax (tf_reduce_max Sm 2) (- 1)) (- 1)) [0, 2, Suc 0]"
  shows "shape beta3 = [BS, Suc 0, N]"
    and "elem beta3 [b, 0, i] =
      exp (Max ((\<lambda>j. elem Sm [b, i, j]) ` {..<M}))
      / (\<Sum>n<N. exp (Max ((\<lambda>j. elem Sm [b, n, j]) ` {..<M})))"
    and "shape (tf_reshape beta3 [- 1, int N]) = [BS, N]"
    and "elem (tf_reshape beta3 [- 1, int N]) [b, i] = elem beta3 [b, 0, i]"
proof -
  let ?S = "build_similarity_matrix self w_sim_1 w_sim_2 w_sim_3 questions contexts"
  let ?M = "similarity_mask questions_mask contexts_mask"
  have N: "0 < N" using i by simp
  have shS: "shape ?S = [BS, N, M]"
    using q c w H b i M by (rule similarity_matrix_elem(1))
  have shM: "shape ?M = [BS, N, M]"
    using qm cm by (rule similarity_mask_shape)
  have shSm: "shape Sm = [BS, N, M]"
    by (simp add: Sm_def shape_masked_logits shS shM)
  have shm: "shape (tf_reduce_max Sm 2) = [BS, N]"
    using shSm by (rule shape_reduce_axis2(2))
  have shs: "shape (tf_softmax (tf_reduce_max Sm 2) (- 1)) = [BS, N]"
    by (simp add: shm)
  have she: "shape (tf_expand_dims (tf_softmax (tf_reduce_max Sm 2) (- 1)) (- 1)) = [BS, N, Suc 0]"
    using shs by (rule shape_expand_dims_last2)
  show sh3: "shape beta3 = [BS, Suc 0, N]"
    unfolding beta3_def using she by (rule shape_transpose_021)
  show "elem beta3 [b, 0, i] =
      exp (Max ((\<lambda>j. elem Sm [b, i, j]) ` {..<M}))
      / (\<Sum>n<N. exp (Max ((\<lambda>j. elem Sm [b, n, j]) ` {..<M})))"
    by (simp add: beta3_def elem_transpose_021 elem_expand_dims_last2 [OF shs]
        elem_softmax2_last [OF shm] elem_reduce_max_axis2 [OF shSm])
  show "shape (tf_reshape beta3 [- 1, int N]) = [BS, N]"
    using N by (simp add: shape_reshape sh3 infer_shape_lead2)
  show "elem (tf_reshape beta3 [- 1, int N]) [b, i] = elem beta3 [b, 0, i]"
    using b i N by (intro elem_reshape) (simp_all add: sh3 infer_shape_lead2 valid_index_def)
qed

subsection \<open>Dropout with keep probability 1\<close>

lemma tf_dropout_one: "uniform_noise noise \<Longrightarrow> tf_dropout x 1 noise = x"
  by (simp add: tf_dropout_def uniform_noise_def dropout_value_one)

lemma wrapped_cell_call_one:
  assumes "cell_keep_prob cell = 1" and "\<forall>k. 0 \<le> u k \<and> u k < 1"
  shows "wrapped_cell_call cell run u x st = (case cell of DropoutWrapper c p \<Rightarrow> run c x st)"
proof (cases cell)
  case (DropoutWrapper c p)
  have "map (\<lambda>k. dropout_value (x ! k) 1 (u k)) [0..<length x] = map (\<lambda>k. x ! k) [0..<length x]"
    using assms(2) by (simp add: dropout_value_one)
  also have "\<dots> = x" by (rule map_nth)
  finally show ?thesis
    using assms(1) DropoutWrapper by simp
qed

lemma dynamic_rnn_one:
  assumes "cell_keep_prob cell = 1"
    and "\<forall>t idx. 0 \<le> n1 t idx \<and> n1 t idx < 1" and "\<forall>t idx. 0 \<le> n2 t idx \<and> n2 t idx < 1"
  shows "dynamic_rnn cell run n1 inputs lens = dynamic_rnn cell run n2 inputs lens"
proof -
  have "wrapped_cell_call cell run (\<lambda>k. n1 t [b, k]) = wrapped_cell_call cell run (\<lambda>k. n2 t [b, k])"
    for t b
    using assms by (intro ext) (simp add: wrapped_cell_call_one)
  then show ?thesis
    by (simp add: dynamic_rnn_def)
qed

lemma bidirectional_dynamic_rnn_one:
  assumes "cell_keep_prob cell_fw = 1" "cell_keep_prob cell_bw = 1"
    and "\<forall>d t idx. 0 \<le> n1 d t idx \<and> n1 d t idx < 1" and "\<forall>d t idx. 0 \<le> n2 d t idx \<and> n2 d t idx < 1"
  shows "bidirectional_dynamic_rnn cell_fw cell_bw run n1 inputs lens =
         bidirectional_dynamic_rnn cell_fw cell_bw run n2 inputs lens"
  using assms
  by (simp add: bidirectional_dynamic_rnn_def dynamic_rnn_one [of _ "n1 Fw" "n2 Fw"]
      dynamic_rnn_one [of _ "n1 Bw" "n2 Bw"])

lemma stack_layers_one:
  assumes "\<forall>(f, b) \<in> set cells. cell_keep_prob f = 1 \<and> cell_keep_prob b = 1"
    and "uniform_cell_noise n1" "uniform_cell_noise n2"
  shows "stack_layers i cells run n1 lens prev = stack_layers i cells run n2 lens prev"
  using assms(1)
proof (induction cells arbitrary: i prev)
  case Nil
  then show ?case by simp
next
  case (Cons fb cells)
  obtain f b where fb: "fb = (f, b)" by (cases fb)
  have "bidirectional_dynamic_rnn f b (run i) (n1 i) prev lens =
        bidirectional_dynamic_rnn f b (run i) (n2 i) prev lens"
    using Cons.prems assms(2,3) fb
    by (intro bidirectional_dynamic_rnn_one) (simp_all add: uniform_cell_noise_def)
  then show ?case
    using Cons fb by (simp add: case_prod_unfold)
qed

lemma append_cells_keep_prob:
  assumes "\<forall>c \<in> set (rnn_cells_fw self) \<union> set (rnn_cells_bw self). cell_keep_prob c = RNNEncoder.keep_prob self"
  shows "RNNEncoder.keep_prob (append_cells self) = RNNEncoder.keep_prob self
       \<and> (\<forall>c \<in> set (rnn_cells_fw (append_cells self)) \<union> set (rnn_cells_bw (append_cells self)).
            cell_keep_prob c = RNNEncoder.keep_prob self)"
  using assms by (auto simp: append_cells_def)

lemma funpow_append_cells_keep_prob:
  assumes "\<forall>c \<in> set (rnn_cells_fw self) \<union> set (rnn_cells_bw self). cell_keep_prob c = RNNEncoder.keep_prob self"
  shows "RNNEncoder.keep_prob ((append_cells ^^ n) self) = RNNEncoder.keep_prob self
       \<and> (\<forall>c \<in> set (rnn_cells_fw ((append_cells ^^ n) self)) \<union> set (rnn_cells_bw ((append_cells ^^ n) self)).
            cell_keep_prob c = RNNEncoder.keep_prob self)"
proof (induction n)
  case 0
  then show ?case using assms by simp
next
  case (Suc n)
  then show ?case
    using append_cells_keep_prob [of "(append_cells ^^ n) self"] by simp
qed

lemma RNNEncoder_init_keep_prob:
  assumes "RNNEncoder_init hidden_size' keep_prob' num_layers' mode' name' = Inr enc"
  shows "RNNEncoder.keep_prob enc = keep_prob'"
    and "\<forall>c \<in> set (rnn_cells_fw enc) \<union> set (rnn_cells_bw enc). cell_keep_prob c = keep_prob'"
  using assms
    funpow_append_cells_keep_prob [of "\<lparr>hidden_size = hidden_size', keep_prob = keep_prob',
      num_layers = num_layers', mode = mode', name = name', rnn_cells_fw = [], rnn_cells_bw = []\<rparr>"
      "nat num_layers'"]
  by (auto simp: RNNEncoder_init_def)

lemma RNNEncoder_build_graph_one:
  assumes kp: "RNNEncoder.keep_prob enc = 1"
    and cells: "\<forall>c \<in> set (rnn_cells_fw enc) \<union> set (rnn_cells_bw enc). cell_keep_prob c = 1"
    and n: "uniform_noise n1" "uniform_noise n2" "uniform_cell_noise cn1" "uniform_cell_noise cn2"
  shows "RNNEncoder_build_graph enc run cn1 n1 inputs masks =
         RNNEncoder_build_graph enc run cn2 n2 inputs masks"
proof (cases "num_layers enc = 1")
  case True
  show ?thesis
  proof (cases "rnn_cells_fw enc")
    case Nil
    then show ?thesis using True by (simp add: RNNEncoder_build_graph_def)
  next
    case fw: (Cons cell_fw fws)
    show ?thesis
    proof (cases "rnn_cells_bw enc")
      case Nil
      then show ?thesis using True fw by (simp add: RNNEncoder_build_graph_def)
    next
      case bw: (Cons cell_bw bws)
      have "bidirectional_dynamic_rnn cell_fw cell_bw (run 0) (cn1 0) inputs (tf_reduce_sum masks 1) =
            bidirectional_dynamic_rnn cell_fw cell_bw (run 0) (cn2 0) inputs (tf_reduce_sum masks 1)"
        using cells fw bw n(3,4)
        by (intro bidirectional_dynamic_rnn_one) (simp_all add: uniform_cell_noise_def)
      then show ?thesis
        using True fw bw kp n(1,2)
        by (simp add: RNNEncoder_build_graph_def Let_def case_prod_unfold tf_dropout_one)
    qed
  qed
next
  case False
  have "\<forall>(f, b) \<in> set (zip (rnn_cells_fw enc) (rnn_cells_bw enc)).
      cell_keep_prob f = 1 \<and> cell_keep_prob b = 1"
    using cells by (auto dest: set_zip_leftD set_zip_rightD)
  then have "stack_layers 0 (zip (rnn_cells_fw enc) (rnn_cells_bw enc)) run cn1 lens inputs =
        stack_layers 0 (zip (rnn_cells_fw enc) (rnn_cells_bw enc)) run cn2 lens inputs" for lens
    using n(3,4) by (rule stack_layers_one)
  then show ?thesis
    using False kp n(1,2)
    by (simp add: RNNEncoder_build_graph_def Let_def stack_bidirectional_dynamic_rnn_def tf_dropout_one)
qed

lemma ba_self_keep_prob [simp]: "BasicAttn.keep_prob ba_self = 1"
  by (simp add: ba_self_def BasicAttn.defs)

lemma sa_self_keep_prob [simp]: "SelfAttn.keep_prob sa_self = 1"
  by (simp add: sa_self_def SelfAttn.defs)

subsection \<open>Rounding to float32\<close>

lemma round_even_near:
  assumes "\<bar>y - of_int m\<bar> < 1 / 2"
  shows "round_even y = m"
proof (cases "of_int m \<le> y")
  case True
  then have "\<lfloor>y\<rfloor> = m" using assms by linarith
  then show ?thesis using assms True by (simp add: round_even_def Let_def)
next
  case False
  then have f: "\<lfloor>y\<rfloor> = m - 1" using assms by linarith
  have "1 / 2 < y - of_int (m - 1)" using assms False by simp
  then show ?thesis using f by (simp add: round_even_def Let_def)
qed

lemma float32_exponent:
  assumes "2 ^ 99 \<le> \<bar>x\<bar>" "\<bar>x\<bar> < 2 ^ 100"
  shows "\<lfloor>log 2 \<bar>x\<bar>\<rfloor> = 99"
proof -
  have pos: "0 < \<bar>x\<bar>" using assms(1) by (smt (verit) zero_less_power)
  have "2 powr (of_int 99) \<le> \<bar>x\<bar> \<and> \<bar>x\<bar> < 2 powr (of_int (99 + 1))"
    using assms by simp
  then show ?thesis
    using floor_log_eq_powr_iff [OF pos, of 2 99] by simp
qed

lemma float32_absorb:
  assumes "\<bar>l\<bar> < 2 ^ 75"
  shows "float32 (l + - (13234890 * 2 ^ 76)) = - (13234890 * 2 ^ 76)"
proof -
  define x where "x = l + - (13234890 * 2 ^ 76 :: real)"
  have lo: "2 ^ 99 \<le> \<bar>x\<bar>" and hi: "\<bar>x\<bar> < 2 ^ 100" and nz: "x \<noteq> 0"
    using assms unfolding x_def by simp_all
  have e: "\<lfloor>log 2 \<bar>x\<bar>\<rfloor> - 23 = 76"
    using float32_exponent [OF lo hi] by simp
  have "x * 2 powr (- of_int 76) = l / 2 ^ 76 - 13234890"
    by (simp add: x_def powr_minus field_simps)
  moreover have "\<bar>l / 2 ^ 76\<bar> < 1 / 2"
    using assms by (simp add: field_simps)
  ultimately have "\<bar>x * 2 powr (- of_int 76) - of_int (- 13234890)\<bar> < 1 / 2"
    by simp
  then have "round_even (x * 2 powr (- of_int 76)) = - 13234890"
    by (rule round_even_near)
  then have "float32 x = - (13234890 * 2 ^ 76)"
    using nz e by (simp add: float32_def Let_def)
  then show ?thesis by (simp add: x_def)
qed

lemma float32_1e30: "float32 (10 ^ 30) = 13234890 * 2 ^ 76"
proof -
  have e: "\<lfloor>log 2 \<bar>10 ^ 30 :: real\<bar>\<rfloor> - 23 = 76"
    using float32_exponent [of "10 ^ 30"] by simp
  have "\<bar>(10 ^ 30 :: real) * 2 powr (- of_int 76) - of_int 13234890\<bar> < 1 / 2"
    by (simp add: powr_minus field_simps)
  then have "round_even ((10 ^ 30 :: real) * 2 powr (- of_int 76)) = 13234890"
    by (rule round_even_near)
  then show ?thesis
    using e by (simp add: float32_def Let_def)
qed

lemma float32_zero [simp]: "float32 0 = 0"
  by (simp add: float32_def)

lemma shape_masked_logits_float32:
  "shape (fst (masked_softmax_float32 logits msk axis)) = bcast_shape (shape logits) (shape msk)"
  by (simp add: masked_softmax_float32_def tf_add_float32_def tf_mul_def tf_sub_def tf_binop_def
      tf_scalar_def tf_cast_float_def Let_def)

lemma elem_masked_logits_float32:
  assumes "shape msk = shape logits" "valid_index (shape logits) idx"
  shows "elem (fst (masked_softmax_float32 logits msk axis)) idx =
           float32 (elem logits idx + (1 - real_of_int (elem msk idx)) * (- float32 (10 ^ 30)))"
  using assms
  by (simp add: masked_softmax_float32_def tf_add_float32_def tf_mul_def tf_sub_def tf_binop_def
      tf_scalar_def tf_cast_float_def Let_def bcast_index_valid)

lemma masked_softmax_float32_snd:
  "snd (masked_softmax_float32 logits msk axis) =
   tf_softmax (fst (masked_softmax_float32 logits msk axis)) axis"
  by (simp add: masked_softmax_float32_def Let_def)

lemma masked_softmax_float32_pair:
  assumes "shape logits = [1, 2]" "shape msk = [1, 2]" "j < 2"
  shows "elem (snd (masked_softmax_float32 logits msk 1)) [0, j] =
     exp (float32 (elem logits [0, j] + (1 - real_of_int (elem msk [0, j])) * (- float32 (10 ^ 30))))
     / (exp (float32 (elem logits [0, 0] + (1 - real_of_int (elem msk [0, 0])) * (- float32 (10 ^ 30))))
        + exp (float32 (elem logits [0, 1] + (1 - real_of_int (elem msk [0, 1])) * (- float32 (10 ^ 30)))))"
proof -
  have sh: "shape (fst (masked_softmax_float32 logits msk 1)) = [1, 2]"
    by (simp add: shape_masked_logits_float32 assms)
  have ml: "elem (fst (masked_softmax_float32 logits msk 1)) [0, k] =
      float32 (elem logits [0, k] + (1 - real_of_int (elem msk [0, k])) * (- float32 (10 ^ 30)))"
    if "k < 2" for k
    using assms(1,2) that by (intro elem_masked_logits_float32) simp_all
  have "elem (snd (masked_softmax_float32 logits msk 1)) [0, j] =
      exp (elem (fst (masked_softmax_float32 logits msk 1)) [0, j])
      / (exp (elem (fst (masked_softmax_float32 logits msk 1)) [0, 0])
         + exp (elem (fst (masked_softmax_float32 logits msk 1)) [0, 1]))"
    by (simp add: masked_softmax_float32_snd tf_softmax_def norm_axis_def sh upt2)
  then show ?thesis
    using assms(3) ml [of 0] ml [of 1] ml [of j] by simp
qed

lemma two_way_split:
  fixes t :: real
  assumes "t < 1" "0 < t"
  shows "t / (t + 1) < 1 / 2" and "1 / 2 < 1 / (t + 1)"
  using assms by (simp_all add: field_simps)

lemma float32_1e30_numeral [simp]:
  "float32 1000000000000000000000000000000 = 1000000015047466219876688855040"
  using float32_1e30 by simp

lemma float32_neg_1e30_numeral [simp]:
  "float32 (- 1000000015047466219876688855040) = - 1000000015047466219876688855040"
  using float32_absorb [of 0] by simp

subsection \<open>The similarity matrix on two contexts and two questions\<close>

lemma bq_similarity:
  "elem (build_similarity_matrix bi_self bi_w1 bi_w2 bq_w3 bq_questions bq_contexts) [0, 0, 0] = 3"
  "elem (build_similarity_matrix bi_self bi_w1 bi_w2 bq_w3 bq_questions bq_contexts) [0, 0, Suc 0] = 23"
  "elem (build_similarity_matrix bi_self bi_w1 bi_w2 bq_w3 bq_questions bq_contexts) [0, Suc 0, 0] = 7"
  "elem (build_similarity_matrix bi_self bi_w1 bi_w2 bq_w3 bq_questions bq_contexts) [0, Suc 0, Suc 0] = 47"
proof -
  have h: "shape bq_questions = [1, 2, 2]" "shape bq_contexts = [1, 2, 2]"
    "shape bi_w1 = [2]" "shape bi_w2 = [2]" "shape bq_w3 = [2]"
    "0 < BidirectionAttn.hidden_size bi_self" "2 = nat (2 * BidirectionAttn.hidden_size bi_self)"
    "(0::nat) < 1"
    by (simp_all add: bq_questions_def bq_contexts_def bi_w1_def bi_w2_def bq_w3_def)
  have e: "elem (build_similarity_matrix bi_self bi_w1 bi_w2 bq_w3 bq_questions bq_contexts) [0, i, j] =
          (\<Sum>k<2. elem bq_contexts [0, i, k] * elem bi_w1 [k])
        + (\<Sum>k<2. elem bq_contexts [0, i, k] * elem bq_w3 [k] * elem bq_questions [0, j, k])
        + (\<Sum>k<2. elem bq_questions [0, j, k] * elem bi_w2 [k])" if "i < 2" "j < 2" for i j
    using h that by (rule similarity_matrix_elem(2))
  show "elem (build_similarity_matrix bi_self bi_w1 bi_w2 bq_w3 bq_questions bq_contexts) [0, 0, 0] = 3"
    using e [of 0 0] by (simp add: bq_questions_def bq_contexts_def bi_w1_def bi_w2_def bq_w3_def lessThan_2)
  show "elem (build_similarity_matrix bi_self bi_w1 bi_w2 bq_w3 bq_questions bq_contexts) [0, 0, Suc 0] = 23"
    using e [of 0 1] by (simp add: bq_questions_def bq_contexts_def bi_w1_def bi_w2_def bq_w3_def lessThan_2)
  show "elem (build_similarity_matrix bi_self bi_w1 bi_w2 bq_w3 bq_questions bq_contexts) [0, Suc 0, 0] = 7"
    using e [of 1 0] by (simp add: bq_questions_def bq_contexts_def bi_w1_def bi_w2_def bq_w3_def lessThan_2)
  show "elem (build_similarity_matrix bi_self bi_w1 bi_w2 bq_w3 bq_questions bq_contexts) [0, Suc 0, Suc 0] = 47"
    using e [of 1 1] by (simp add: bq_questions_def bq_contexts_def bi_w1_def bi_w2_def bq_w3_def lessThan_2)
qed

lemma bq_masked_similarity:
  fixes Sm
  defines "Sm \<equiv> fst (masked_softmax
      (build_similarity_matrix bi_self bi_w1 bi_w2 bq_w3 bq_questions bq_contexts)
      (similarity_mask bq_qmask bq_cmask) 2)"
  shows "elem Sm [0, 0, 0] = 3" "elem Sm [0, 0, Suc 0] = 23 - 10 ^ 30"
    "elem Sm [0, Suc 0, 0] = 7" "elem Sm [0, Suc 0, Suc 0] = 47 - 10 ^ 30"
proof -
  let ?S = "build_similarity_matrix bi_self bi_w1 bi_w2 bq_w3 bq_questions bq_contexts"
  let ?M = "similarity_mask bq_qmask bq_cmask"
  have h: "shape bq_questions = [1, 2, 2]" "shape bq_contexts = [1, 2, 2]"
    "shape bi_w1 = [2]" "shape bi_w2 = [2]" "shape bq_w3 = [2]"
    "0 < BidirectionAttn.hidden_size bi_self" "2 = nat (2 * BidirectionAttn.hidden_size bi_self)"
    "(0::nat) < 1" "(0::nat) < 2" "(0::nat) < 2"
    by (simp_all add: bq_questions_def bq_contexts_def bi_w1_def bi_w2_def bq_w3_def)
  have m: "shape bq_qmask = [1, 2]" "shape bq_cmask = [1, 2]"
    by (simp_all add: bq_qmask_def bq_cmask_def)
  have shS: "shape ?S = [1, 2, 2]"
    using h by (rule similarity_matrix_elem(1))
  have shM: "shape ?M = [1, 2, 2]"
    using m by (rule similarity_mask_shape)
  have M: "elem ?M [0, i, j] = elem bq_cmask [0, i] * elem bq_qmask [0, j]" for i j
    using m by (rule similarity_mask_elem)
  have Mv: "elem ?M [0, i, 0] = 1" "elem ?M [0, i, Suc 0] = 0" for i
    unfolding M by (simp_all add: bq_qmask_def bq_cmask_def)
  have e: "elem Sm [0, i, j] = elem ?S [0, i, j] + (1 - real_of_int (elem ?M [0, i, j])) * (- (10 ^ 30))"
    if "i < 2" "j < 2" for i j
    unfolding Sm_def using that by (intro elem_masked_logits_same) (simp_all add: shS shM)
  show "elem Sm [0, 0, 0] = 3"
    using e [of 0 0] by (simp add: Mv bq_similarity)
  show "elem Sm [0, 0, Suc 0] = 23 - 10 ^ 30"
    using e [of 0 1] by (simp add: Mv bq_similarity)
  show "elem Sm [0, Suc 0, 0] = 7"
    using e [of 1 0] by (simp add: Mv bq_similarity)
  show "elem Sm [0, Suc 0, Suc 0] = 47 - 10 ^ 30"
    using e [of 1 1] by (simp add: Mv bq_similarity)
qed

section \<open>The claims\<close>

subsection \<open>C1: \<open>masked_softmax\<close> on a row with a valid entry\<close>

text \<open>
  C1 says that in a row with a valid entry the entries at the masked positions are 0, as
  the docstring of \<open>masked_softmax\<close> does ("Should be 0 in padding locations"). The code
  at the row of logits \<open>0, 1e30\<close> with mask \<open>1, 0\<close>: the masked logit becomes
  \<open>1e30 - 1e30 = 0\<close>, equal to the valid one, and the padding location gets the
  probability \<open>1 / 2\<close>. This holds over the reals and with the float32 addition alike.
\<close>

theorem masked_softmax_huge_logit:
  "elem ex_mask [0, 0] = 1 \<and> elem ex_mask [0, 1] = 0
   \<and> elem (snd (masked_softmax ex_logits ex_mask 1)) [0, 1] = 1 / 2
   \<and> elem (snd (masked_softmax_float32 f_logits_huge ex_mask 1)) [0, 1] = 1 / 2"
proof -
  have r: "elem (snd (masked_softmax ex_logits ex_mask 1)) [0, 1] = 1 / 2"
    by (simp add: masked_softmax_def tf_softmax_def tf_add_def tf_mul_def tf_sub_def tf_binop_def
        tf_scalar_def tf_cast_float_def norm_axis_def ex_logits_def ex_mask_def Let_def
        bcast_index_def bcast_shape_def pad_shape_def upt2)
  have "shape f_logits_huge = [1, 2]" "shape ex_mask = [1, 2]" "(1::nat) < 2"
    by (simp_all add: f_logits_huge_def ex_mask_def)
  from masked_softmax_float32_pair [OF this]
  have f: "elem (snd (masked_softmax_float32 f_logits_huge ex_mask 1)) [0, 1] = 1 / 2"
    by (simp add: f_logits_huge_def ex_mask_def)
  have "elem ex_mask [0, 0] = 1" "elem ex_mask [0, 1] = 0"
    by (simp_all add: ex_mask_def)
  with r f show ?thesis by simp
qed

subsection \<open>C2: \<open>masked_softmax\<close> on a row without a valid entry\<close>

text \<open>
  C2, as amended. For a row along the normalisation axis whose mask entries are all 0 and
  whose logits are smaller than \<open>2\<^sup>7\<^sup>5\<close> in magnitude (about \<open>3.8e22\<close>), the float32
  addition absorbs every logit: each masked logit is exactly the constant \<open>-1e30\<close>. The
  output of the row is then uniform, every entry being \<open>1 / n\<close> for a row of \<open>n\<close>
  entries; it sums to 1, and is near zero only when the row is long.
\<close>

theorem masked_softmax_float32_all_masked:
  assumes same: "shape msk = shape logits"
    and ax: "ax < length (shape logits)"
    and idx: "valid_index (shape logits) idx"
    and none: "\<forall>k < shape logits ! ax. elem msk (idx[ax := k]) = 0"
    and moderate: "\<forall>k < shape logits ! ax. \<bar>elem logits (idx[ax := k])\<bar> < 2 ^ 75"
  shows "row_sum (snd (masked_softmax_float32 logits msk (int ax))) ax idx = 1
       \<and> (\<forall>k < shape logits ! ax.
            elem (fst (masked_softmax_float32 logits msk (int ax))) (idx[ax := k]) = - float32 (10 ^ 30)
          \<and> elem (snd (masked_softmax_float32 logits msk (int ax))) (idx[ax := k])
              = 1 / real (shape logits ! ax))"
proof -
  let ?n = "shape logits ! ax"
  let ?ml = "fst (masked_softmax_float32 logits msk (int ax))"
  let ?p = "snd (masked_softmax_float32 logits msk (int ax))"
  have n: "0 < ?n"
    using valid_index_nth [OF idx ax] by simp
  have sh: "shape ?ml = shape logits"
    by (simp add: shape_masked_logits_float32 same)
  have p: "?p = tf_softmax ?ml (int ax)"
    by (rule masked_softmax_float32_snd)
  have ml: "elem ?ml (idx[ax := k]) = - float32 (10 ^ 30)" if k: "k < ?n" for k
  proof -
    have "elem ?ml (idx[ax := k]) =
        float32 (elem logits (idx[ax := k]) + (1 - real_of_int (elem msk (idx[ax := k]))) * (- float32 (10 ^ 30)))"
      using same idx k by (intro elem_masked_logits_float32 valid_index_update)
    also have "\<dots> = float32 (elem logits (idx[ax := k]) + - (13234890 * 2 ^ 76))"
    proof -
      have "real_of_int (elem msk (idx[ax := k])) = 0"
        using none k by simp
      then show ?thesis
        unfolding float32_1e30 by simp
    qed
    also have "\<dots> = - (13234890 * 2 ^ 76)"
      using moderate k by (intro float32_absorb) simp
    finally show ?thesis
      unfolding float32_1e30 .
  qed
  have one: "row_sum ?p ax idx = 1"
    unfolding p using n by (intro row_sum_softmax) (simp add: sh)
  have unif: "elem ?p (idx[ax := k]) = 1 / real ?n" if k: "k < ?n" for k
  proof -
    have "elem ?p (idx[ax := k]) =
        exp (elem ?ml (idx[ax := k])) / (\<Sum>j<?n. exp (elem ?ml (idx[ax := j])))"
      by (simp add: p tf_softmax_def Let_def sum_list_upt_sum sh)
    also have "\<dots> = exp (- float32 (10 ^ 30)) / (\<Sum>j<?n. exp (- float32 (10 ^ 30)))"
      using k by (simp add: ml)
    also have "\<dots> = 1 / real ?n"
      by simp
    finally show ?thesis .
  qed
  show ?thesis
    using one ml unif by blast
qed

text \<open>
  The theorem at the row of logits \<open>0, 1\<close> with mask \<open>0, 0\<close>: both entries are
  \<open>1 / 2\<close>, though the logits differ.
\<close>

theorem masked_softmax_float32_all_masked_witness:
  "row_sum (snd (masked_softmax_float32 f_logits z_mask 1)) 1 [0, 0] = 1
   \<and> elem f_logits [0, 0] = 0 \<and> elem f_logits [0, 1] = 1
   \<and> elem (snd (masked_softmax_float32 f_logits z_mask 1)) [0, 0] = 1 / 2
   \<and> elem (snd (masked_softmax_float32 f_logits z_mask 1)) [0, 1] = 1 / 2"
proof -
  have "shape z_mask = shape f_logits" "1 < length (shape f_logits)"
    "valid_index (shape f_logits) [0, 0]"
    "\<forall>k < shape f_logits ! 1. elem z_mask ([0, 0][1 := k]) = 0"
    "\<forall>k < shape f_logits ! 1. \<bar>elem f_logits ([0, 0][1 := k])\<bar> < 2 ^ 75"
    by (auto simp: z_mask_def f_logits_def valid_index_def less_Suc_eq numeral_2_eq_2)
  from masked_softmax_float32_all_masked [OF this]
  have a: "row_sum (snd (masked_softmax_float32 f_logits z_mask 1)) 1 [0, 0] = 1"
    and b: "\<forall>k < shape f_logits ! 1.
           elem (snd (masked_softmax_float32 f_logits z_mask 1)) ([0, 0][1 := k])
              = 1 / real (shape f_logits ! 1)"
    by simp_all
  have c: "elem (snd (masked_softmax_float32 f_logits z_mask 1)) [0, 0] = 1 / 2"
    using b [rule_format, of 0] by (simp add: f_logits_def)
  have d: "elem (snd (masked_softmax_float32 f_logits z_mask 1)) [0, 1] = 1 / 2"
    using b [rule_format, of 1] by (simp add: f_logits_def)
  have "elem f_logits [0, 0] = 0" "elem f_logits [0, 1] = 1"
    by (simp_all add: f_logits_def)
  with a c d show ?thesis by simp
qed

text \<open>
  C2 as stated ("a uniform near-zero output") fails twice. On the row of logits \<open>0, 0\<close>
  with mask \<open>0, 0\<close> both entries are \<open>1 / 2\<close>: uniform, not near zero. On the row of
  logits \<open>0, 1e30\<close> with mask \<open>0, 0\<close> the second logit is not absorbed, and the
  output is not uniform: the first entry is below \<open>1 / 2\<close> and the second above.
\<close>

theorem masked_softmax_float32_all_masked_not_near_zero:
  "elem z_mask [0, 0] = 0 \<and> elem z_mask [0, 1] = 0
   \<and> elem (snd (masked_softmax_float32 z_logits z_mask 1)) [0, 0] = 1 / 2
   \<and> elem (snd (masked_softmax_float32 z_logits z_mask 1)) [0, 1] = 1 / 2
   \<and> elem (snd (masked_softmax_float32 f_logits_huge z_mask 1)) [0, 0] < 1 / 2
   \<and> 1 / 2 < elem (snd (masked_softmax_float32 f_logits_huge z_mask 1)) [0, 1]"
proof -
  let ?C = "1000000015047466219876688855040 :: real"
  have sh: "shape z_logits = [1, 2]" "shape f_logits_huge = [1, 2]" "shape z_mask = [1, 2]"
    by (simp_all add: z_logits_def f_logits_huge_def z_mask_def)
  have z: "elem (snd (masked_softmax_float32 z_logits z_mask 1)) [0, j] = 1 / 2" if "j < 2" for j
    using masked_softmax_float32_pair [OF sh(1) sh(3) that]
    by (simp add: z_logits_def z_mask_def)
  have h0: "elem (snd (masked_softmax_float32 f_logits_huge z_mask 1)) [0, 0] =
      exp (- ?C) / (exp (- ?C) + 1)"
    using masked_softmax_float32_pair [OF sh(2) sh(3), of 0]
    by (simp add: f_logits_huge_def z_mask_def)
  have h1: "elem (snd (masked_softmax_float32 f_logits_huge z_mask 1)) [0, 1] =
      1 / (exp (- ?C) + 1)"
    using masked_softmax_float32_pair [OF sh(2) sh(3), of 1]
    by (simp add: f_logits_huge_def z_mask_def)
  have small: "exp (- ?C) < 1" by simp
  have pos: "0 < exp (- ?C)" by (rule exp_gt_zero)
  have a: "exp (- ?C) / (exp (- ?C) + 1) < 1 / 2"
    using small pos by (rule two_way_split(1))
  have b: "1 / 2 < 1 / (exp (- ?C) + 1)"
    using small pos by (rule two_way_split(2))
  have m: "elem z_mask [0, 0] = 0" "elem z_mask [0, 1] = 0"
    by (simp_all add: z_mask_def)
  have a': "elem (snd (masked_softmax_float32 f_logits_huge z_mask 1)) [0, 0] < 1 / 2"
    unfolding h0 by (rule a)
  have b': "1 / 2 < elem (snd (masked_softmax_float32 f_logits_huge z_mask 1)) [0, 1]"
    unfolding h1 by (rule b)
  from m z [of 0] z [of 1] a' b' show ?thesis
    by simp
qed

subsection \<open>C3: an unsupported cell family at construction\<close>

text \<open>
  C3, as amended. For a mode other than \<open>'GRU'\<close> and \<open>'LSTM'\<close> the constructor of
  \<open>RNNEncoder\<close> does not validate and does not fail: it returns an encoder with the
  fields as given and both cell lists empty, for every number of layers.
\<close>

theorem RNNEncoder_init_unsupported_mode:
  assumes "mode' \<noteq> ''GRU''" and "mode' \<noteq> ''LSTM''"
  shows "RNNEncoder_init hidden_size' keep_prob' num_layers' mode' name' =
           Inr \<lparr>hidden_size = hidden_size', keep_prob = keep_prob', num_layers = num_layers',
                 mode = mode', name = name', rnn_cells_fw = [], rnn_cells_bw = []\<rparr>"
  using assms by (simp add: RNNEncoder_init_def funpow_append_cells_unsupported)

text \<open>
  The theorem at mode \<open>'RNN'\<close> with two layers.
\<close>

theorem RNNEncoder_init_unsupported_mode_witness:
  "RNNEncoder_init 200 1 2 ''RNN'' None =
     Inr \<lparr>hidden_size = 200, keep_prob = 1, num_layers = 2,
           mode = ''RNN'', name = None, rnn_cells_fw = [], rnn_cells_bw = []\<rparr>"
  using RNNEncoder_init_unsupported_mode [of "''RNN''" 200 1 2 None] by simp

text \<open>
  C3 as stated ("fails fast with explicit validation at construction") fails: the
  constructor called with mode \<open>'RNN'\<close> returns no error, and the encoder it returns has
  no cells.
\<close>

theorem RNNEncoder_init_no_validation:
  "RNNEncoder_init 200 1 1 ''RNN'' None \<noteq> Inl ValueError
   \<and> RNNEncoder_init 200 1 1 ''RNN'' None \<noteq> Inl IndexError
   \<and> rnn_cells_fw (projr (RNNEncoder_init 200 1 1 ''RNN'' None)) = []
   \<and> rnn_cells_bw (projr (RNNEncoder_init 200 1 1 ''RNN'' None)) = []"
  by (simp add: RNNEncoder_init_def append_cells_def)

subsection \<open>C4: the similarity matrix of \<open>BidirectionAttn\<close>\<close>

text \<open>
  C4. For questions of shape \<open>(BS, M, 2H)\<close>, contexts of shape \<open>(BS, N, 2H)\<close> and weight
  vectors of width \<open>2H\<close>, the similarity matrix has shape \<open>(BS, N, M)\<close> and its entry at
  batch element \<open>b\<close>, context position \<open>i\<close> and question position \<open>j\<close> is
  \<open>\<langle>w1, c\<^sub>i\<rangle> + \<langle>w2, q\<^sub>j\<rangle> + \<langle>w3 \<odot> c\<^sub>i, q\<^sub>j\<rangle>\<close>.
\<close>

theorem build_similarity_matrix_trilinear:
  assumes "shape questions = [BS, M, D]" and "shape contexts = [BS, N, D]"
    and "shape w_sim_1 = [D]" "shape w_sim_2 = [D]" "shape w_sim_3 = [D]"
    and "0 < BidirectionAttn.hidden_size self" "D = nat (2 * BidirectionAttn.hidden_size self)"
    and "b < BS" and "i < N" and "j < M"
  shows "shape (build_similarity_matrix self w_sim_1 w_sim_2 w_sim_3 questions contexts) = [BS, N, M]
    \<and> elem (build_similarity_matrix self w_sim_1 w_sim_2 w_sim_3 questions contexts) [b, i, j] =
          (\<Sum>k<D. elem w_sim_1 [k] * elem contexts [b, i, k])
        + (\<Sum>k<D. elem w_sim_2 [k] * elem questions [b, j, k])
        + (\<Sum>k<D. (elem w_sim_3 [k] * elem contexts [b, i, k]) * elem questions [b, j, k])"
proof -
  have "elem (build_similarity_matrix self w_sim_1 w_sim_2 w_sim_3 questions contexts) [b, i, j] =
          (\<Sum>k<D. elem contexts [b, i, k] * elem w_sim_1 [k])
        + (\<Sum>k<D. elem contexts [b, i, k] * elem w_sim_3 [k] * elem questions [b, j, k])
        + (\<Sum>k<D. elem questions [b, j, k] * elem w_sim_2 [k])"
    using assms by (rule similarity_matrix_elem(2))
  moreover have "shape (build_similarity_matrix self w_sim_1 w_sim_2 w_sim_3 questions contexts) = [BS, N, M]"
    using assms by (rule similarity_matrix_elem(1))
  ultimately show ?thesis
    by (simp add: mult.commute)
qed

text \<open>
  The theorem at \<open>H = 1\<close>, \<open>c = [1, 2]\<close>, \<open>q = [3, 4]\<close>, \<open>w1 = [1, 1]\<close>, \<open>w2 = [1, 0]\<close>,
  \<open>w3 = [0, 1]\<close>: the score is \<open>3 + 3 + 8\<close>.
\<close>

theorem build_similarity_matrix_trilinear_witness:
  "shape (build_similarity_matrix bi_self bi_w1 bi_w2 bi_w3 bi_questions bi_contexts) = [1, 1, 1]
   \<and> elem (build_similarity_matrix bi_self bi_w1 bi_w2 bi_w3 bi_questions bi_contexts) [0, 0, 0] = 14"
proof -
  have "shape bi_questions = [1, 1, 2]" "shape bi_contexts = [1, 1, 2]"
    "shape bi_w1 = [2]" "shape bi_w2 = [2]" "shape bi_w3 = [2]"
    "0 < BidirectionAttn.hidden_size bi_self" "2 = nat (2 * BidirectionAttn.hidden_size bi_self)"
    "(0::nat) < 1" "(0::nat) < 1" "(0::nat) < 1"
    by (simp_all add: bi_questions_def bi_contexts_def bi_w1_def bi_w2_def bi_w3_def)
  from build_similarity_matrix_trilinear [OF this]
  show ?thesis
    by (simp add: bi_questions_def bi_contexts_def bi_w1_def bi_w2_def bi_w3_def lessThan_2)
qed

subsection \<open>C5: the question-to-context attention of \<open>BidirectionAttn\<close>\<close>

text \<open>
  C5. For inputs of the documented shapes, \<open>beta\<close> has shape \<open>(BS, N)\<close> and is the plain
  softmax, over the context positions, of the maxima of the masked similarity matrix over
  the question positions. The fused output has shape \<open>(BS, N, 6H)\<close>, and its last third
  at context position \<open>i\<close> is the dropout of \<open>s \<odot> c\<^sub>i\<close>, where the summary
  \<open>s = \<Sum>n. beta\<^sub>n * c\<^sub>n\<close> is one vector per batch element, the same at every context
  position.
\<close>

theorem BidirectionAttn_question_to_context:
  assumes q: "shape questions = [BS, M, D]" and c: "shape contexts = [BS, N, D]"
    and w: "shape w_sim_1 = [D]" "shape w_sim_2 = [D]" "shape w_sim_3 = [D]"
    and H: "0 < BidirectionAttn.hidden_size self" "D = nat (2 * BidirectionAttn.hidden_size self)"
    and qm: "shape questions_mask = [BS, M]" and cm: "shape contexts_mask = [BS, N]"
    and b: "b < BS" and i: "i < N" and M: "0 < M"
  shows "(case BidirectionAttn_build_graph self w_sim_1 w_sim_2 w_sim_3 noise
            questions questions_mask contexts contexts_mask of (alpha, beta, output) \<Rightarrow>
      shape beta = [BS, N]
    \<and> elem beta [b, i] =
        exp (Max ((\<lambda>j. elem (fst (masked_softmax
               (build_similarity_matrix self w_sim_1 w_sim_2 w_sim_3 questions contexts)
               (similarity_mask questions_mask contexts_mask) 2)) [b, i, j]) ` {..<M}))
        / (\<Sum>n<N. exp (Max ((\<lambda>j. elem (fst (masked_softmax
               (build_similarity_matrix self w_sim_1 w_sim_2 w_sim_3 questions contexts)
               (similarity_mask questions_mask contexts_mask) 2)) [b, n, j]) ` {..<M})))
    \<and> shape output = [BS, N, 3 * D]
    \<and> (\<forall>k<D. elem output [b, i, 2 * D + k] =
          dropout_value ((\<Sum>n<N. elem beta [b, n] * elem contexts [b, n, k]) * elem contexts [b, i, k])
            (BidirectionAttn.keep_prob self) (noise [b, i, 2 * D + k])))"
proof -
  let ?r = "BidirectionAttn_build_graph self w_sim_1 w_sim_2 w_sim_3 noise
            questions questions_mask contexts contexts_mask"
  define Sm where "Sm = fst (masked_softmax (build_similarity_matrix self w_sim_1 w_sim_2 w_sim_3 questions contexts)
          (similarity_mask questions_mask contexts_mask) 2)"
  define beta3 where "beta3 = tf_transpose (tf_expand_dims (tf_softmax (tf_reduce_max Sm 2) (- 1)) (- 1)) [0, 2, Suc 0]"
  define alpha where "alpha = snd (masked_softmax (build_similarity_matrix self w_sim_1 w_sim_2 w_sim_3 questions contexts)
          (similarity_mask questions_mask contexts_mask) 2)"
  define c2q where "c2q = tf_matmul alpha questions"
  define q2c0 where "q2c0 = tf_matmul beta3 contexts"
  define q2c where "q2c = tf_tile q2c0 [1, N, 1]"
  note B = BidirectionAttn_beta_elem [OF q c w H qm cm, folded Sm_def, folded beta3_def]
  have N: "0 < N" using i by simp
  have beta: "fst (snd ?r) = tf_reshape beta3 [- 1, int N]"
    by (simp add: BidirectionAttn_beta beta3_def Sm_def c)
  have out: "snd (snd ?r) = tf_dropout (tf_concat [c2q, tf_mul c2q contexts, tf_mul q2c contexts] 2)
      (BidirectionAttn.keep_prob self) noise"
    by (simp add: BidirectionAttn_output Let_def q2c_def q2c0_def c2q_def alpha_def beta3_def Sm_def c)
  have sh3: "shape beta3 = [BS, Suc 0, N]"
    using b i M by (rule B(1))
  have e3: "elem beta3 [b, 0, n] =
      exp (Max ((\<lambda>j. elem Sm [b, n, j]) ` {..<M}))
      / (\<Sum>n<N. exp (Max ((\<lambda>j. elem Sm [b, n, j]) ` {..<M})))" if "n < N" for n
    using b that M by (rule B(2))
  have shb: "shape (fst (snd ?r)) = [BS, N]"
    unfolding beta using b i M by (rule B(3))
  have eb: "elem (fst (snd ?r)) [b, n] = elem beta3 [b, 0, n]" if "n < N" for n
    unfolding beta using b that M by (rule B(4))
  have sha: "shape alpha = [BS, N, M]"
    using BidirectionAttn_alpha_elem(1) [OF q c w H qm cm b i, of 0 noise] M
    by (simp add: BidirectionAttn_alpha alpha_def)
  have shc2q: "shape c2q = [BS, N, D]"
    unfolding c2q_def using sha q by (rule shape_matmul3)
  have shq0: "shape q2c0 = [BS, Suc 0, D]"
    unfolding q2c0_def using sh3 c by (rule shape_matmul3)
  have eq0: "elem q2c0 [b, 0, k] = (\<Sum>n<N. elem beta3 [b, 0, n] * elem contexts [b, n, k])" for k
    by (simp add: q2c0_def elem_matmul3 sh3)
  have shq: "shape q2c = [BS, N, D]"
    using shape_tile3 [OF shq0, of 1 N 1] by (simp add: q2c_def)
  have eq: "elem q2c [b, i, k] = elem q2c0 [b, 0, k]" if "k < D" for k
    unfolding q2c_def using shq0 b that by (rule elem_tile_mid)
  have shy: "shape (tf_mul c2q contexts) = [BS, N, D]"
    using shc2q c by (rule shape_mul_same)
  have shz: "shape (tf_mul q2c contexts) = [BS, N, D]"
    using shq c by (rule shape_mul_same)
  have shcat: "shape (tf_concat [c2q, tf_mul c2q contexts, tf_mul q2c contexts] 2) = [BS, N, 3 * D]"
    using shc2q shy shz by (rule concat3_third(1))
  have ecat: "elem (tf_concat [c2q, tf_mul c2q contexts, tf_mul q2c contexts] 2) [b, i, 2 * D + k] =
      (\<Sum>n<N. elem (fst (snd ?r)) [b, n] * elem contexts [b, n, k]) * elem contexts [b, i, k]"
    if k: "k < D" for k
  proof -
    have "elem (tf_concat [c2q, tf_mul c2q contexts, tf_mul q2c contexts] 2) [b, i, 2 * D + k] =
        elem (tf_mul q2c contexts) [b, i, k]"
      using shc2q shy shz k by (rule concat3_third(2))
    also have "\<dots> = elem q2c [b, i, k] * elem contexts [b, i, k]"
      using b i k by (simp add: elem_mul_same [OF shq c])
    finally show ?thesis
      using k by (simp add: eq eq0 eb)
  qed
  have "shape (fst (snd ?r)) = [BS, N]" by (rule shb)
  moreover have "elem (fst (snd ?r)) [b, i] =
        exp (Max ((\<lambda>j. elem Sm [b, i, j]) ` {..<M}))
        / (\<Sum>n<N. exp (Max ((\<lambda>j. elem Sm [b, n, j]) ` {..<M})))"
    using i by (simp add: eb e3)
  moreover have "shape (snd (snd ?r)) = [BS, N, 3 * D]"
    by (simp add: out shcat)
  moreover have "\<forall>k<D. elem (snd (snd ?r)) [b, i, 2 * D + k] =
          dropout_value ((\<Sum>n<N. elem (fst (snd ?r)) [b, n] * elem contexts [b, n, k]) * elem contexts [b, i, k])
            (BidirectionAttn.keep_prob self) (noise [b, i, 2 * D + k])"
    by (simp add: out elem_dropout ecat)
  ultimately show ?thesis
    unfolding Sm_def by (simp add: case_prod_unfold)
qed

text \<open>
  The theorem at two contexts \<open>[1, 2]\<close>, \<open>[3, 4]\<close> and two questions \<open>[0, 0]\<close>,
  \<open>[10, 0]\<close>, the second question padded, with \<open>w1 = [1, 1]\<close>, \<open>w2 = w3 = [1, 0]\<close> and
  keep probability 1. The similarity matrix is \<open>3, 23\<close> and \<open>7, 47\<close>; the masked maxima
  are 3 and 7 (without the mask they would be 23 and 47), so \<open>beta\<close> is the softmax of
  \<open>3, 7\<close>, and the same summary \<open>beta\<^sub>0 * 1 + beta\<^sub>1 * 3\<close> multiplies the first entry of
  both contexts in the last third of the output.
\<close>

theorem BidirectionAttn_question_to_context_witness:
  "shape (fst (snd (BidirectionAttn_build_graph bi_self bi_w1 bi_w2 bq_w3 (\<lambda>idx. 0)
        bq_questions bq_qmask bq_contexts bq_cmask))) = [1, 2]
   \<and> elem (fst (snd (BidirectionAttn_build_graph bi_self bi_w1 bi_w2 bq_w3 (\<lambda>idx. 0)
        bq_questions bq_qmask bq_contexts bq_cmask))) [0, 0] = exp 3 / (exp 3 + exp 7)
   \<and> elem (fst (snd (BidirectionAttn_build_graph bi_self bi_w1 bi_w2 bq_w3 (\<lambda>idx. 0)
        bq_questions bq_qmask bq_contexts bq_cmask))) [0, 1] = exp 7 / (exp 3 + exp 7)
   \<and> shape (snd (snd (BidirectionAttn_build_graph bi_self bi_w1 bi_w2 bq_w3 (\<lambda>idx. 0)
        bq_questions bq_qmask bq_contexts bq_cmask))) = [1, 2, 6]
   \<and> elem (snd (snd (BidirectionAttn_build_graph bi_self bi_w1 bi_w2 bq_w3 (\<lambda>idx. 0)
        bq_questions bq_qmask bq_contexts bq_cmask))) [0, 0, 4]
       = (exp 3 / (exp 3 + exp 7) * 1 + exp 7 / (exp 3 + exp 7) * 3) * 1
   \<and> elem (snd (snd (BidirectionAttn_build_graph bi_self bi_w1 bi_w2 bq_w3 (\<lambda>idx. 0)
        bq_questions bq_qmask bq_contexts bq_cmask))) [0, 1, 4]
       = (exp 3 / (exp 3 + exp 7) * 1 + exp 7 / (exp 3 + exp 7) * 3) * 3"
proof -
  let ?r = "BidirectionAttn_build_graph bi_self bi_w1 bi_w2 bq_w3 (\<lambda>idx. 0)
        bq_questions bq_qmask bq_contexts bq_cmask"
  have h: "shape bq_questions = [1, 2, 2]" "shape bq_contexts = [1, 2, 2]"
    "shape bi_w1 = [2]" "shape bi_w2 = [2]" "shape bq_w3 = [2]"
    "0 < BidirectionAttn.hidden_size bi_self" "2 = nat (2 * BidirectionAttn.hidden_size bi_self)"
    "shape bq_qmask = [1, 2]" "shape bq_cmask = [1, 2]" "(0::nat) < 1"
    by (simp_all add: bq_questions_def bq_contexts_def bi_w1_def bi_w2_def bq_w3_def bq_qmask_def
        bq_cmask_def)
  have i0: "(0::nat) < 2" and i1: "(1::nat) < 2" and M: "(0::nat) < 2" by simp_all
  note T0 = BidirectionAttn_question_to_context [OF h i0 M, of "\<lambda>idx. 0"]
  note T1 = BidirectionAttn_question_to_context [OF h i1 M, of "\<lambda>idx. 0"]
  have sb: "shape (fst (snd ?r)) = [1, 2]" and so: "shape (snd (snd ?r)) = [1, 2, 6]"
    using T0 by (simp_all add: case_prod_unfold)
  have b0: "elem (fst (snd ?r)) [0, 0] = exp 3 / (exp 3 + exp 7)"
    using T0 by (simp add: case_prod_unfold lessThan_2 bq_masked_similarity)
  have b1: "elem (fst (snd ?r)) [0, Suc 0] = exp 7 / (exp 3 + exp 7)"
    using T1 by (simp add: case_prod_unfold lessThan_2 bq_masked_similarity)
  have c: "elem bq_contexts [0, 0, 0] = 1" "elem bq_contexts [0, Suc 0, 0] = 3"
    by (simp_all add: bq_contexts_def)
  have "\<forall>k<2. elem (snd (snd ?r)) [0, 0, 2 * 2 + k] =
          dropout_value ((\<Sum>n<2. elem (fst (snd ?r)) [0, n] * elem bq_contexts [0, n, k])
              * elem bq_contexts [0, 0, k]) (BidirectionAttn.keep_prob bi_self) 0"
    using T0 by (simp add: case_prod_unfold)
  from this [rule_format, of 0]
  have o0: "elem (snd (snd ?r)) [0, 0, 4]
       = (exp 3 / (exp 3 + exp 7) * 1 + exp 7 / (exp 3 + exp 7) * 3) * 1"
    by (simp add: lessThan_2 b0 b1 c dropout_value_def)
  have "\<forall>k<2. elem (snd (snd ?r)) [0, 1, 2 * 2 + k] =
          dropout_value ((\<Sum>n<2. elem (fst (snd ?r)) [0, n] * elem bq_contexts [0, n, k])
              * elem bq_contexts [0, 1, k]) (BidirectionAttn.keep_prob bi_self) 0"
    using T1 by (simp add: case_prod_unfold)
  from this [rule_format, of 0]
  have o1: "elem (snd (snd ?r)) [0, 1, 4]
       = (exp 3 / (exp 3 + exp 7) * 1 + exp 7 / (exp 3 + exp 7) * 3) * 3"
    by (simp add: lessThan_2 b0 b1 c dropout_value_def)
  from sb b0 b1 so o0 o1 show ?thesis
    by simp
qed

subsection \<open>C6: the pairwise mask of \<open>SelfAttn\<close>\<close>




subsection \<open>C7: the distribution of \<open>BasicAttn\<close>\<close>

text \<open>
  C7 says that every key gives padded value positions the weight 0, as the docstring of
  \<open>build_graph\<close> does ("should be 0 in the value locations that correspond to padding").
  The code at the key \<open>[1]\<close> and the values \<open>[0]\<close>, \<open>[1e30]\<close>, the second one padded: the
  logits are \<open>0, 1e30\<close>, the mask takes \<open>1e30\<close> off the second, and the padded value gets
  the weight \<open>1 / 2\<close>.
\<close>

theorem BasicAttn_huge_value:
  "elem ba_mask [0, 0] = 1 \<and> elem ba_mask [0, 1] = 0
   \<and> elem (fst (BasicAttn_build_graph ba_self (\<lambda>idx. 0) ba_values_huge ba_mask ba_keys)) [0, 0, 1] = 1 / 2"
proof -
  have "shape ba_values_huge = [1, 2, 1]" "shape ba_mask = [1, 2]" "shape ba_keys = [1, 1, 1]"
    "(0::nat) < 1" "(0::nat) < 1" "(1::nat) < 2"
    by (simp_all add: ba_values_huge_def ba_mask_def ba_keys_def)
  from BasicAttn_dist [OF this, of ba_self "\<lambda>idx. 0"]
  show ?thesis
    by (simp add: attn_logit_def ba_values_huge_def ba_mask_def ba_keys_def lessThan_2)
qed

subsection \<open>C8: keep probability 1 and determinism\<close>

text \<open>
  C8. A run of the graph is a choice of the random numbers of its dropout operations,
  uniform in \<open>[0, 1)\<close>. With keep probability 1, any two runs of \<open>BasicAttn\<close>, of
  \<open>SelfAttn\<close>, of \<open>BidirectionAttn\<close> and of an \<open>RNNEncoder\<close> built by its constructor
  (whose cells then drop their inputs with keep probability 1 too) on the same inputs and
  the same learned parameters return the same result.
\<close>

theorem keep_prob_one_deterministic:
  assumes "uniform_noise n1" "uniform_noise n2" "uniform_cell_noise cn1" "uniform_cell_noise cn2"
  shows "(BasicAttn.keep_prob ba = 1 \<longrightarrow>
            BasicAttn_build_graph ba n1 vals vals_mask keys =
            BasicAttn_build_graph ba n2 vals vals_mask keys)
       \<and> (SelfAttn.keep_prob sa = 1 \<longrightarrow>
            SelfAttn_build_graph sa weights_1 weights_2 v n1 contexts1 contexts_mask1 =
            SelfAttn_build_graph sa weights_1 weights_2 v n2 contexts1 contexts_mask1)
       \<and> (BidirectionAttn.keep_prob bi = 1 \<longrightarrow>
            BidirectionAttn_build_graph bi w_sim_1 w_sim_2 w_sim_3 n1 questions questions_mask contexts2 contexts_mask2 =
            BidirectionAttn_build_graph bi w_sim_1 w_sim_2 w_sim_3 n2 questions questions_mask contexts2 contexts_mask2)
       \<and> (RNNEncoder_init hidden_size' 1 num_layers' mode' name' = Inr enc \<longrightarrow>
            RNNEncoder_build_graph enc run cn1 n1 inputs masks =
            RNNEncoder_build_graph enc run cn2 n2 inputs masks)"
proof -
  have basic: "BasicAttn_build_graph ba n1 vals vals_mask keys =
      BasicAttn_build_graph ba n2 vals vals_mask keys" if "BasicAttn.keep_prob ba = 1"
    using that assms(1,2) by (simp add: BasicAttn_build_graph_def Let_def tf_dropout_one)
  have self: "SelfAttn_build_graph sa weights_1 weights_2 v n1 contexts1 contexts_mask1 =
      SelfAttn_build_graph sa weights_1 weights_2 v n2 contexts1 contexts_mask1" if "SelfAttn.keep_prob sa = 1"
    using that assms(1,2) by (simp add: SelfAttn_build_graph_def Let_def tf_dropout_one)
  have bidir: "BidirectionAttn_build_graph bi w_sim_1 w_sim_2 w_sim_3 n1 questions questions_mask contexts2 contexts_mask2 =
      BidirectionAttn_build_graph bi w_sim_1 w_sim_2 w_sim_3 n2 questions questions_mask contexts2 contexts_mask2"
    if "BidirectionAttn.keep_prob bi = 1"
    using that assms(1,2)
    by (simp add: BidirectionAttn_build_graph_def Let_def case_prod_unfold tf_dropout_one)
  have enc: "RNNEncoder_build_graph enc run cn1 n1 inputs masks =
      RNNEncoder_build_graph enc run cn2 n2 inputs masks"
    if "RNNEncoder_init hidden_size' 1 num_layers' mode' name' = Inr enc"
    using RNNEncoder_init_keep_prob [OF that] assms by (intro RNNEncoder_build_graph_one)
  show ?thesis
    using basic self bidir enc by blast
qed

text \<open>
  The theorem at the inputs used above and at a one-layer \<open>'GRU'\<close> encoder, for the
  random numbers all 0 against all \<open>1 / 2\<close>.
\<close>

theorem keep_prob_one_deterministic_witness:
  "BasicAttn_build_graph ba_self (\<lambda>idx. 0) ba_values ba_mask ba_keys =
   BasicAttn_build_graph ba_self (\<lambda>idx. 1 / 2) ba_values ba_mask ba_keys
 \<and> SelfAttn_build_graph sa_self sa_zero sa_zero sa_one (\<lambda>idx. 0) sa_contexts sa_mask =
   SelfAttn_build_graph sa_self sa_zero sa_zero sa_one (\<lambda>idx. 1 / 2) sa_contexts sa_mask
 \<and> BidirectionAttn_build_graph bi_self bi_w1 bi_w2 bi_w3 (\<lambda>idx. 0) bi_questions bi_qmask bi_contexts bi_cmask =
   BidirectionAttn_build_graph bi_self bi_w1 bi_w2 bi_w3 (\<lambda>idx. 1 / 2) bi_questions bi_qmask bi_contexts bi_cmask
 \<and> RNNEncoder_build_graph (projr (RNNEncoder_init 1 1 1 ''GRU'' None)) ex_run
     (\<lambda>i d t idx. 0) (\<lambda>idx. 0) ex_inputs ex_masks =
   RNNEncoder_build_graph (projr (RNNEncoder_init 1 1 1 ''GRU'' None)) ex_run
     (\<lambda>i d t idx. 1 / 2) (\<lambda>idx. 1 / 2) ex_inputs ex_masks"
proof -
  have n: "uniform_noise (\<lambda>idx. 0)" "uniform_noise (\<lambda>idx. 1 / 2)"
    "uniform_cell_noise (\<lambda>i d t idx. 0)" "uniform_cell_noise (\<lambda>i d t idx. 1 / 2)"
    by (simp_all add: uniform_noise_def uniform_cell_noise_def)
  have i: "RNNEncoder_init 1 1 1 ''GRU'' None = Inr (projr (RNNEncoder_init 1 1 1 ''GRU'' None))"
    by (simp add: RNNEncoder_init_def)
  from keep_prob_one_deterministic [OF n, where ?ba = ba_self and ?vals = ba_values
      and ?vals_mask = ba_mask and ?keys = ba_keys
      and ?sa = sa_self and ?weights_1.0 = sa_zero and ?weights_2.0 = sa_zero and ?v = sa_one
      and ?contexts1.0 = sa_contexts and ?contexts_mask1.0 = sa_mask
      and ?bi = bi_self and ?w_sim_1.0 = bi_w1 and ?w_sim_2.0 = bi_w2 and ?w_sim_3.0 = bi_w3
      and ?questions = bi_questions and ?questions_mask = bi_qmask
      and ?contexts2.0 = bi_contexts and ?contexts_mask2.0 = bi_cmask
      and ?hidden_size' = 1 and ?num_layers' = 1 and ?mode' = "''GRU''" and ?name' = None
      and ?enc = "projr (RNNEncoder_init 1 1 1 ''GRU'' None)" and ?run = ex_run
      and ?inputs = ex_inputs and ?masks = ex_masks]
  show ?thesis
    using i by simp
qed

subsection \<open>C9: where the unsupported cell family surfaces\<close>

text \<open>
  C9. For every mode other than \<open>'GRU'\<close> and \<open>'LSTM'\<close> the constructor succeeds and
  leaves both cell lists empty, and when the number of layers is 1, \<open>build_graph\<close> on
  that encoder fails with the \<open>IndexError\<close> of \<open>self.rnn_cells_fw[0]\<close>, whatever the
  inputs, the masks, the weights and the random numbers are.
\<close>

theorem RNNEncoder_unsupported_mode_fails_at_build:
  assumes "mode' \<noteq> ''GRU''" and "mode' \<noteq> ''LSTM''"
  shows "\<exists>self. RNNEncoder_init hidden_size' keep_prob' num_layers' mode' name' = Inr self
           \<and> rnn_cells_fw self = [] \<and> rnn_cells_bw self = []
           \<and> (num_layers' = 1 \<longrightarrow>
                RNNEncoder_build_graph self run cell_noise out_noise inputs masks = Inl IndexError)"
proof -
  let ?self = "\<lparr>hidden_size = hidden_size', keep_prob = keep_prob', num_layers = num_layers',
                 mode = mode', name = name', rnn_cells_fw = [], rnn_cells_bw = []\<rparr>"
  have "RNNEncoder_init hidden_size' keep_prob' num_layers' mode' name' = Inr ?self"
    using assms by (simp add: RNNEncoder_init_def funpow_append_cells_unsupported)
  moreover have "num_layers' = 1 \<longrightarrow>
      RNNEncoder_build_graph ?self run cell_noise out_noise inputs masks = Inl IndexError"
    by (simp add: RNNEncoder_build_graph_def)
  ultimately show ?thesis by simp
qed

text \<open>
  The theorem at mode \<open>'RNN'\<close> and one layer.
\<close>

theorem RNNEncoder_unsupported_mode_fails_at_build_witness:
  "RNNEncoder_build_graph (projr (RNNEncoder_init 200 1 1 ''RNN'' None))
      (\<lambda>i d c x st. (st, st)) (\<lambda>i d t idx. 0) (\<lambda>idx. 0) ex_inputs ex_masks = Inl IndexError"
proof -
  have "''RNN'' \<noteq> ''GRU''" "''RNN'' \<noteq> ''LSTM''" by simp_all
  from RNNEncoder_unsupported_mode_fails_at_build [OF this, of 200 1 1 None
      "\<lambda>i d c x st. (st, st)" "\<lambda>i d t idx. 0" "\<lambda>idx. 0" ex_inputs ex_masks]
  show ?thesis by auto
qed

subsection \<open>C10: the assertion on the rows of \<open>alpha\<close>\<close>



end
